theory Spec2Isabelle
  imports Main
begin

section \<open>Errors\<close>

text \<open>
  The gRPC status codes the workspace-template code uses, and the error values it builds:
  \<^item> \<open>Plain m\<close> is \<^verbatim>\<open>fmt.Errorf(m)\<close> (also any error a collaborator or the
    database driver hands back);
  \<^item> \<open>UserError c m\<close> is \<^verbatim>\<open>util.NewUserError(c, m)\<close>;
  \<^item> \<open>Wrapf e s\<close> is \<^verbatim>\<open>fmt.Errorf("%w; %s", e, s)\<close>: it wraps \<open>e\<close> and its text
    is the text of \<open>e\<close>, a semicolon, and \<open>s\<close>.
\<close>

datatype Code = InvalidArgument | AlreadyExists | NotFound | Unknown

datatype error = Plain string | UserError Code string | Wrapf error string

fun Error :: "error \<Rightarrow> string" where
  "Error (Plain m) = m"
| "Error (UserError c m) = m"
| "Error (Wrapf e s) = Error e @ ''; '' @ s"

text \<open>\<^verbatim>\<open>goerrors.As(err, &statusError)\<close>: the first \<^verbatim>\<open>*util.UserError\<close> in the chain.\<close>

fun asUserError :: "error \<Rightarrow> (Code \<times> string) option" where
  "asUserError (Plain m) = None"
| "asUserError (UserError c m) = Some (c, m)"
| "asUserError (Wrapf e s) = asUserError e"


section \<open>The workspace spec and its parameters\<close>

record ParameterOption =
  optName :: string
  optValue :: string

record Parameter =
  Name :: string
  Type :: string
  Value :: "string option"
  DisplayName :: "string option"
  Hint :: "string option"
  Required :: bool
  Options :: "ParameterOption list"

record VolumeMount =
  vmName :: string
  MountPath :: string

record Container =
  cName :: string
  VolumeMounts :: "VolumeMount list"

text \<open>
  A volume-claim template: \<open>Requests\<close> is \<^verbatim>\<open>v.Spec.Resources.Requests\<close>, a Go map
  from resource name to quantity that may be nil.
\<close>

record VolumeClaimTemplate =
  vctName :: string
  AccessModes :: "string list"
  StorageClassName :: "string option"
  Requests :: "(string \<times> string) list option"

text \<open>An HTTP route: the hosts of its destinations are what the compiler rewrites.\<close>

record HTTPRoute =
  routeName :: string
  DestinationHosts :: "string list"

text \<open>Tasks and templates of the orchestrator's workflow definitions.\<close>

record DAGTask =
  taskName :: string
  taskTemplate :: string
  Dependencies :: "string list"
  When :: string
  taskArguments :: "(string \<times> string) list"
  WithItems :: "string list"

record ResourceTemplate =
  Action :: string
  resManifest :: string
  SuccessCondition :: string

record Template =
  tmplName :: string
  tmplInputs :: "string list"
  tmplOutputs :: "(string \<times> string) list"
  DAG :: "DAGTask list option"
  Resource :: "ResourceTemplate option"

record PostExecutionWorkflow =
  Entrypoint :: string
  Templates :: "Template list"

record WorkspaceSpec =
  Arguments :: "Parameter list option"
  Containers :: "Container list"
  Ports :: "string list"
  Routes :: "HTTPRoute list"
  VolumeClaimTemplates :: "VolumeClaimTemplate list"
  PostExecutionWorkflow :: "PostExecutionWorkflow option"

text \<open>
  The system configuration. Its accessors are not part of the sources at hand, so the
  three values they return are the fields of a record: the domain, the node-pool label
  key, and the node-pool options or the error of reading them.
\<close>

record SystemConfig =
  Domain :: "string option"
  NodePoolLabel :: "string option"
  NodePoolOptions :: "error + ParameterOption list"

definition mkParameter :: "string \<Rightarrow> string \<Rightarrow> string option \<Rightarrow> Parameter" where
  "mkParameter n t v =
     \<lparr>Name = n, Type = t, Value = v, DisplayName = None, Hint = None,
      Required = False, Options = []\<rparr>"

definition generateRuntimeParameters :: "SystemConfig \<Rightarrow> error + Parameter list" where
  "generateRuntimeParameters config =
     (case NodePoolOptions config of
        Inl err \<Rightarrow> Inl err
      | Inr nodePoolOptions \<Rightarrow>
          (case nodePoolOptions of
             [] \<Rightarrow> Inl (Plain ''no node pool options in config'')
           | option0 # _ \<Rightarrow>
               Inr [mkParameter ''sys-host'' ''input.hidden'' (Domain config),
                    mkParameter ''sys-node-pool-label'' ''input.hidden'' (NodePoolLabel config),
                    \<lparr>Name = ''sys-node-pool'', Type = ''select.select'',
                     Value = Some (optValue option0),
                     DisplayName = Some ''Node pool'',
                     Hint = Some ''Name of node pool or group'',
                     Required = True,
                     Options = nodePoolOptions\<rparr>]))"

definition systemParameters :: "Parameter list" where
  "systemParameters =
     [\<lparr>Name = ''sys-name'', Type = ''input.text'', Value = Some ''name'',
       DisplayName = Some ''Workspace name'',
       Hint = Some ''Must be between 3-30 characters, contain only alphanumeric or `-` characters'',
       Required = True, Options = []\<rparr>,
      mkParameter ''sys-resource-action'' ''input.hidden'' (Some ''apply''),
      mkParameter ''sys-workspace-action'' ''input.hidden'' (Some ''create''),
      mkParameter ''sys-uid'' ''input.hidden'' (Some ''uid'')]"

text \<open>
  \<open>volumeStorageQuantityIsSet\<close>: the names of the volume-claim templates whose requests
  are not nil. The Go map from names to \<open>true\<close> is a set of names.
\<close>

definition volumeStorageQuantityIsSet :: "VolumeClaimTemplate list \<Rightarrow> string set" where
  "volumeStorageQuantityIsSet vcts = set (map vctName (filter (\<lambda>v. Requests v \<noteq> None) vcts))"

definition volumeSizeParameter :: "VolumeMount \<Rightarrow> Parameter" where
  "volumeSizeParameter v =
     \<lparr>Name = ''sys-'' @ vmName v @ ''-volume-size'',
      Type = ''input.number'',
      Value = Some ''20480'',
      DisplayName = Some (''Disk size for \"'' @ vmName v @ ''\"''),
      Hint = Some (''Disk size in MB for volume mounted at `'' @ MountPath v @ ''`''),
      Required = True,
      Options = []\<rparr>"

text \<open>
  One turn of the inner loop of \<open>generateArguments\<close>: the state is the parameters
  synthesized so far and \<open>volumeClaimsMapped\<close>.
\<close>

definition volumeSizeStep ::
  "string set \<Rightarrow> VolumeMount \<Rightarrow> Parameter list \<times> string set \<Rightarrow> Parameter list \<times> string set" where
  "volumeSizeStep isSet v st =
     (case st of (ps, mapped) \<Rightarrow>
        if vmName v \<in> mapped \<or> vmName v \<in> isSet then st
        else (ps @ [volumeSizeParameter v], insert (vmName v) mapped))"

definition systemVolumeParameters :: "WorkspaceSpec \<Rightarrow> Parameter list" where
  "systemVolumeParameters spec =
     fst (fold (\<lambda>c. fold (volumeSizeStep (volumeStorageQuantityIsSet (VolumeClaimTemplates spec)))
                      (VolumeMounts c))
            (Containers spec) ([], {}))"

definition generateArguments :: "WorkspaceSpec \<Rightarrow> SystemConfig \<Rightarrow> error + WorkspaceSpec" where
  "generateArguments spec config =
     (case generateRuntimeParameters config of
        Inl err \<Rightarrow> Inl err
      | Inr runtimeParameters \<Rightarrow>
          (let user = (case Arguments spec of None \<Rightarrow> [] | Some ps \<Rightarrow> ps)
           in Inr (spec\<lparr>Arguments :=
                 Some ((systemParameters @ runtimeParameters) @ user
                       @ systemVolumeParameters spec)\<rparr>)))"

section \<open>The resource documents\<close>

text \<open>
  The documents are kept as the structured values the code hands to \<^verbatim>\<open>yaml.Marshal\<close>;
  the serializer itself is a parameter (\<open>yamlMarshal\<close> below). Environment variables
  of the containers are left out of the model: no property stated here reads them.
\<close>

record VolumeClaim =
  claimName :: string
  claimAccessModes :: "string list"
  claimStorageClassName :: "string option"
  claimStorage :: string

record StatefulSet =
  replicas :: nat
  nodeSelector :: "string \<times> string"
  podContainers :: "Container list"
  podVolumes :: "string list"
  volumeClaimTemplates :: "VolumeClaim list"

definition deferredVolumeSize :: "string \<Rightarrow> string" where
  "deferredVolumeSize n = ''{{workflow.parameters.sys-'' @ n @ ''-volume-size}}Mi''"

text \<open>
  The first loop of \<open>createStatefulSetManifest\<close>, over the declared volume-claim
  templates; the state is the claims so far and \<open>volumeClaimsMapped\<close>.
\<close>

definition declaredClaim :: "VolumeClaimTemplate \<Rightarrow> VolumeClaim" where
  "declaredClaim v =
     \<lparr>claimName = vctName v,
      claimAccessModes = AccessModes v,
      claimStorageClassName =
        (case StorageClassName v of None \<Rightarrow> Some ''onepanel'' | Some c \<Rightarrow> Some c),
      claimStorage =
        (case Requests v of
           None \<Rightarrow> deferredVolumeSize (vctName v)
         | Some reqs \<Rightarrow> (case map_of reqs ''storage'' of None \<Rightarrow> ''0'' | Some q \<Rightarrow> q))\<rparr>"

definition declaredClaimStep ::
  "VolumeClaimTemplate \<Rightarrow> VolumeClaim list \<times> string set \<Rightarrow> VolumeClaim list \<times> string set" where
  "declaredClaimStep v st =
     (case st of (claims, mapped) \<Rightarrow>
        if vctName v \<in> mapped then st
        else (claims @ [declaredClaim v], insert (vctName v) mapped))"

definition synthesizedClaim :: "VolumeMount \<Rightarrow> VolumeClaim" where
  "synthesizedClaim v =
     \<lparr>claimName = vmName v,
      claimAccessModes = [''ReadWriteOnce''],
      claimStorageClassName = Some ''onepanel'',
      claimStorage = deferredVolumeSize (vmName v)\<rparr>"

definition mountClaimStep ::
  "VolumeMount \<Rightarrow> VolumeClaim list \<times> string set \<Rightarrow> VolumeClaim list \<times> string set" where
  "mountClaimStep v st =
     (case st of (claims, mapped) \<Rightarrow>
        if vmName v \<in> mapped then st
        else (claims @ [synthesizedClaim v], insert (vmName v) mapped))"

definition sysDshmMount :: VolumeMount where
  "sysDshmMount = \<lparr>vmName = ''sys-dshm'', MountPath = ''/dev/shm''\<rparr>"

text \<open>
  The second loop, over the containers. \<open>container := &spec.Containers[i]\<close> points into
  the spec, so appending the \<open>sys-dshm\<close> mount changes the container of the spec itself:
  the state carries the containers as they are left behind.
\<close>

definition containerStep ::
  "Container \<Rightarrow> (VolumeClaim list \<times> string set) \<times> Container list
     \<Rightarrow> (VolumeClaim list \<times> string set) \<times> Container list" where
  "containerStep c st =
     (case st of (cm, done) \<Rightarrow>
        (fold mountClaimStep (VolumeMounts c) cm,
         done @ [c\<lparr>VolumeMounts := VolumeMounts c @ [sysDshmMount]\<rparr>]))"

definition statefulSetLoops :: "WorkspaceSpec \<Rightarrow> (VolumeClaim list \<times> string set) \<times> Container list" where
  "statefulSetLoops spec =
     (let (claims, mapped) = fold declaredClaimStep (VolumeClaimTemplates spec) ([], {});
          mapped' = insert ''sys-namespace-config'' (insert ''sys-dshm'' mapped)
      in fold containerStep (Containers spec) ((claims, mapped'), []))"

definition volumeClaims :: "WorkspaceSpec \<Rightarrow> VolumeClaim list" where
  "volumeClaims spec = fst (fst (statefulSetLoops spec))"

text \<open>The spec as \<open>createStatefulSetManifest\<close> leaves it, and the document it builds.\<close>

definition specAfterStatefulSet :: "WorkspaceSpec \<Rightarrow> WorkspaceSpec" where
  "specAfterStatefulSet spec = spec\<lparr>Containers := snd (statefulSetLoops spec)\<rparr>"

definition statefulSet :: "WorkspaceSpec \<Rightarrow> StatefulSet" where
  "statefulSet spec =
     \<lparr>replicas = 1,
      nodeSelector = (''{{workflow.parameters.sys-node-pool-label}}'',
                      ''{{workflow.parameters.sys-node-pool}}''),
      podContainers = Containers (specAfterStatefulSet spec),
      podVolumes = [''sys-dshm'', ''sys-namespace-config''],
      volumeClaimTemplates = volumeClaims spec\<rparr>"

section \<open>The task graph\<close>

definition mkTask :: "string \<Rightarrow> string \<Rightarrow> string list \<Rightarrow> string \<Rightarrow> DAGTask" where
  "mkTask n t deps w =
     \<lparr>taskName = n, taskTemplate = t, Dependencies = deps, When = w,
      taskArguments = [], WithItems = []\<rparr>"

definition whenCreateOrUpdate :: string where
  "whenCreateOrUpdate = ''{{workflow.parameters.sys-workspace-action}} == create || {{workflow.parameters.sys-workspace-action}} == update''"

definition whenPauseOrDelete :: string where
  "whenPauseOrDelete = ''{{workflow.parameters.sys-workspace-action}} == pause || {{workflow.parameters.sys-workspace-action}} == delete''"

definition whenPause :: string where
  "whenPause = ''{{workflow.parameters.sys-workspace-action}} == pause''"

definition whenDelete :: string where
  "whenDelete = ''{{workflow.parameters.sys-workspace-action}} == delete''"

text \<open>
  The first loop of \<open>unmarshalWorkflowTemplate\<close>: the names of the volume mounts of all
  containers, each name once, in the order of first mention.
\<close>

definition volumeClaimItemStep :: "VolumeMount \<Rightarrow> string list \<times> string set \<Rightarrow> string list \<times> string set" where
  "volumeClaimItemStep v st =
     (case st of (items, mapped) \<Rightarrow>
        if vmName v \<in> mapped then st
        else (items @ [vmName v], insert (vmName v) mapped))"

definition volumeClaimItems :: "WorkspaceSpec \<Rightarrow> string list" where
  "volumeClaimItems spec =
     fst (fold (\<lambda>c. fold volumeClaimItemStep (VolumeMounts c)) (Containers spec) ([], {}))"

definition workspaceTasks :: "WorkspaceSpec \<Rightarrow> DAGTask list" where
  "workspaceTasks spec =
     [mkTask ''service'' ''service-resource'' [] [],
      mkTask ''virtual-service'' ''virtual-service-resource'' [''service''] [],
      mkTask ''create-stateful-set'' ''stateful-set-resource'' [''virtual-service''] whenCreateOrUpdate,
      (mkTask ''get-stateful-set'' ''get-stateful-set-resource'' [''create-stateful-set''] whenCreateOrUpdate)
        \<lparr>taskArguments := [(''update-revision'', ''{{tasks.create-stateful-set.outputs.parameters.update-revision}}'')]\<rparr>,
      mkTask ''create-workspace'' ''workspace-resource'' [''get-stateful-set''] whenCreateOrUpdate,
      mkTask ''delete-stateful-set'' ''delete-stateful-set-resource'' [''virtual-service''] whenPauseOrDelete,
      mkTask ''delete-workspace'' ''workspace-resource'' [''delete-stateful-set''] whenPauseOrDelete,
      (mkTask ''delete-pvc'' ''delete-pvc-resource'' [''delete-workspace''] whenDelete)
        \<lparr>taskArguments := [(''sys-pvc-name'', ''{{item}}'')],
         WithItems := volumeClaimItems spec\<rparr>,
      (mkTask ''sys-set-phase-running'' ''sys-update-status'' [''create-workspace''] whenCreateOrUpdate)
        \<lparr>taskArguments := [(''sys-workspace-phase'', ''Running'')]\<rparr>,
      (mkTask ''sys-set-phase-paused'' ''sys-update-status'' [''delete-workspace''] whenPause)
        \<lparr>taskArguments := [(''sys-workspace-phase'', ''Paused'')]\<rparr>,
      (mkTask ''sys-set-phase-terminated'' ''sys-update-status'' [''delete-pvc''] whenDelete)
        \<lparr>taskArguments := [(''sys-workspace-phase'', ''Terminated'')]\<rparr>]
     @ (case PostExecutionWorkflow spec of
          None \<Rightarrow> []
        | Some post \<Rightarrow>
            [mkTask (Entrypoint post) (Entrypoint post)
               [''sys-set-phase-running'', ''sys-set-phase-paused'', ''sys-set-phase-terminated''] []])"

text \<open>
  \<^verbatim>\<open>strings.Replace(s, old, new, -1)\<close> and a one-pair \<^verbatim>\<open>strings.NewReplacer\<close>: every
  occurrence of \<open>old\<close>, scanning from the left, is replaced by \<open>new\<close>. Both call sites
  pass a literal \<open>old\<close> that is not empty.
\<close>

fun replaceAll :: "string \<Rightarrow> string \<Rightarrow> string \<Rightarrow> string" where
  "replaceAll old new [] = []"
| "replaceAll old new (c # cs) =
     (if old \<noteq> [] \<and> take (length old) (c # cs) = old
      then new @ replaceAll old new (drop (length old - 1) cs)
      else c # replaceAll old new cs)"

section \<open>Volume names in order of first mention\<close>

text \<open>
  Three loops of the compiler walk the volume mounts of all containers and act on a
  name the first time they meet it. These definitions say what such a loop visits; the
  loops themselves are the folds above, and the lemmas below relate the two.
  \<open>allMounts\<close> is the walk, \<open>firstByName seen\<close> keeps the mounts whose name is not in
  \<open>seen\<close> and has not come before, and \<open>withSysDshm\<close> is the container as
  \<open>createStatefulSetManifest\<close> leaves it.
\<close>

definition allMounts :: "WorkspaceSpec \<Rightarrow> VolumeMount list" where
  "allMounts spec = concat (map VolumeMounts (Containers spec))"

fun firstByName :: "string set \<Rightarrow> VolumeMount list \<Rightarrow> VolumeMount list" where
  "firstByName seen [] = []"
| "firstByName seen (v # vs) =
     (if vmName v \<in> seen then firstByName seen vs
      else v # firstByName (insert (vmName v) seen) vs)"

definition withSysDshm :: "Container \<Rightarrow> Container" where
  "withSysDshm c = c\<lparr>VolumeMounts := VolumeMounts c @ [sysDshmMount]\<rparr>"

section \<open>Templates, tables and collaborators\<close>

record WorkflowTemplate =
  wfID :: nat
  wfUID :: string
  wfName :: string
  wfManifest :: string
  wfVersion :: int
  wfIsSystem :: bool
  wfResource :: "string option"
  wfResourceUID :: "string option"
  wfLabels :: "(string \<times> string) list"

record WorkspaceTemplate =
  ID :: nat
  WorkspaceTemplateVersionID :: nat
  UID :: string
  CreatedAt :: nat
  wtName :: string
  Namespace :: string
  Description :: string
  Version :: int
  Manifest :: string
  IsLatest :: bool
  IsArchived :: bool
  Labels :: "(string \<times> string) list"
  WorkflowTemplate :: WorkflowTemplate

definition emptyWorkflowTemplate :: WorkflowTemplate where
  "emptyWorkflowTemplate =
     \<lparr>wfID = 0, wfUID = [], wfName = [], wfManifest = [], wfVersion = 0, wfIsSystem = False,
      wfResource = None, wfResourceUID = None, wfLabels = []\<rparr>"

text \<open>The rows of the four tables the queries read and write.\<close>

record TemplateRow =
  wt_id :: nat
  wt_uid :: string
  wt_name :: string
  wt_namespace :: string
  wt_description :: string
  wt_is_archived :: bool
  wt_workflow_template_id :: nat
  wt_labels :: "(string \<times> string) list"
  wt_created_at :: nat

record VersionRow =
  wtv_id :: nat
  wtv_workspace_template_id :: nat
  wtv_version :: int
  wtv_is_latest :: bool
  wtv_manifest :: string
  wtv_labels :: "(string \<times> string) list"
  wtv_created_at :: nat

record WorkflowTemplateRow =
  wft_id :: nat
  wft_uid :: string
  wft_is_archived :: bool

record WorkflowTemplateVersionRow =
  wftv_workflow_template_id :: nat
  wftv_version :: int
  wftv_is_latest :: bool
  wftv_manifest :: string

text \<open>
  The two workflow tables belong to the workflow-template collaborator, whose code is not
  part of the sources at hand: its operations are parameters that read and write these
  two tables only.
\<close>

record WorkflowTables =
  workflow_templates :: "WorkflowTemplateRow list"
  workflow_template_versions :: "WorkflowTemplateVersionRow list"

text \<open>
  Calls to collaborators that change something outside the workspace tables, in the order
  they were made.
\<close>

datatype Call =
    CallCreateWorkflowTemplate string string
  | CallCreateWorkflowTemplateVersion string string
  | CallArchiveWorkflowTemplate string string
  | CallArchiveWorkspace string string

text \<open>
  The state: the two workspace tables with their id sequences, the collaborator's tables,
  and the calls made so far.
\<close>

record World =
  workspace_templates :: "TemplateRow list"
  workspace_template_versions :: "VersionRow list"
  next_template_id :: nat
  next_version_id :: nat
  workflow :: WorkflowTables
  calls :: "Call list"

datatype Document =
    ServiceDoc "string list"
  | VirtualServiceDoc "HTTPRoute list"
  | StatefulSetDoc StatefulSet
  | WorkspaceDoc
  | WorkflowTemplateSpecDoc "Parameter list option" string "Template list"

record Service =
  svcName :: string
  svcURL :: string

text \<open>
  Everything the code calls that is not in the sources at hand, every way the database
  driver can fail where the code checks for it, and the time the database stamps on a new
  row. An operation is a function of this environment: a theorem for every environment
  holds whatever the collaborators do.
\<close>

record Env =
  GetSystemConfig :: "error + SystemConfig"
  parseWorkspaceSpec :: "string \<Rightarrow> error + WorkspaceSpec"
  ListServices :: "string \<Rightarrow> error + Service list"
  yamlMarshal :: "Document \<Rightarrow> error + string"
  getCURLNodeTemplate :: "string \<Rightarrow> string \<Rightarrow> string \<Rightarrow> string \<Rightarrow> string list \<Rightarrow> error + Template"
  ValidateStruct :: "WorkspaceTemplate \<Rightarrow> error option"
  GenerateUID :: "string \<Rightarrow> error + string"
  TypeWorkspaceTemplate :: string
  NewUserErrorWrap :: "error \<Rightarrow> string \<Rightarrow> error"
  InjectRuntimeParameters :: "SystemConfig \<Rightarrow> WorkflowTemplate \<Rightarrow> error + WorkflowTemplate"
  validateWorkflowTemplate :: "string \<Rightarrow> WorkflowTemplate \<Rightarrow> error option"
  createWorkflowTemplate ::
    "WorkflowTables \<Rightarrow> string \<Rightarrow> WorkflowTemplate \<Rightarrow> (error + WorkflowTemplate) \<times> WorkflowTables"
  CreateWorkflowTemplateVersion ::
    "WorkflowTables \<Rightarrow> string \<Rightarrow> WorkflowTemplate \<Rightarrow> (error + WorkflowTemplate) \<times> WorkflowTables"
  ArchiveWorkflowTemplate ::
    "WorkflowTables \<Rightarrow> string \<Rightarrow> string \<Rightarrow> (error + bool) \<times> WorkflowTables"
  ListWorkspacesByTemplateID :: "string \<Rightarrow> nat \<Rightarrow> error + string list"
  ArchiveWorkspace :: "string \<Rightarrow> string \<Rightarrow> error option"
  queryErr :: "error option"
  beginErr :: "error option"
  insertTemplateErr :: "error option"
  insertVersionErr :: "error option"
  markOutdatedErr :: "error option"
  updateTemplateErr :: "error option"
  commitErr :: "error option"
  archiveExecErr :: "error option"
  rowsAffectedErr :: "error option"
  now :: nat


section \<open>The compile pipeline\<close>

definition serviceDoc :: "WorkspaceSpec \<Rightarrow> Document" where
  "serviceDoc spec = ServiceDoc (Ports spec)"

text \<open>
  \<open>createVirtualServiceManifest\<close> first rewrites the host of every destination of every
  route, in the spec itself, and then builds the document from the routes. Every entry
  of a route is taken to name a destination: the code writes through the pointer without
  a check.
\<close>

definition rewriteRoutes :: "WorkspaceSpec \<Rightarrow> WorkspaceSpec" where
  "rewriteRoutes spec =
     spec\<lparr>Routes := map (\<lambda>h. h\<lparr>DestinationHosts :=
                 map (\<lambda>_. ''{{workflow.parameters.sys-uid}}'') (DestinationHosts h)\<rparr>) (Routes spec)\<rparr>"

definition virtualServiceDoc :: "WorkspaceSpec \<Rightarrow> Document" where
  "virtualServiceDoc spec = VirtualServiceDoc (Routes (rewriteRoutes spec))"

definition mkResource :: "string \<Rightarrow> string \<Rightarrow> string \<Rightarrow> string \<Rightarrow> Template" where
  "mkResource n a m sc =
     \<lparr>tmplName = n, tmplInputs = [], tmplOutputs = [], DAG = None,
      Resource = Some \<lparr>Action = a, resManifest = m, SuccessCondition = sc\<rparr>\<rparr>"

definition getStatefulSetManifest :: string where
  "getStatefulSetManifest =
     ''apiVersion: apps/v1'' @ [CHR 0x0A] @ ''kind: StatefulSet'' @ [CHR 0x0A] @ ''metadata:'' @ [CHR 0x0A]
     @ ''  name: {{workflow.parameters.sys-uid}}'' @ [CHR 0x0A]"

definition deletePVCManifest :: string where
  "deletePVCManifest =
     ''apiVersion: v1'' @ [CHR 0x0A] @ ''kind: PersistentVolumeClaim'' @ [CHR 0x0A] @ ''metadata:'' @ [CHR 0x0A]
     @ ''  name: {{inputs.parameters.sys-pvc-name}}-{{workflow.parameters.sys-uid}}-0'' @ [CHR 0x0A]"

definition resourceAction :: string where
  "resourceAction = ''{{workflow.parameters.sys-resource-action}}''"

text \<open>
  \<open>unmarshalWorkflowTemplate\<close> up to its call of the serializer: the templates, the
  status-update template of \<open>getCURLNodeTemplate\<close>, and the templates of the
  post-execution workflow when the spec has one.
\<close>

definition unmarshalWorkflowTemplate ::
  "Env \<Rightarrow> WorkspaceSpec \<Rightarrow> string \<Rightarrow> string \<Rightarrow> string \<Rightarrow> string \<Rightarrow> error + Document" where
  "unmarshalWorkflowTemplate env spec serviceManifest virtualServiceManifest statefulSetManifest workspaceManifest =
     (case getCURLNodeTemplate env ''sys-update-status'' ''PUT''
             ''/apis/v1beta1/{{workflow.namespace}}/workspaces/{{workflow.parameters.sys-uid}}/status''
             ''{\"phase\":\"{{inputs.parameters.sys-workspace-phase}}\"}''
             [''sys-workspace-phase''] of
        Inl err \<Rightarrow> Inl err
      | Inr curlNodeTemplate \<Rightarrow>
          Inr (WorkflowTemplateSpecDoc (Arguments spec) ''workspace''
            ([\<lparr>tmplName = ''workspace'', tmplInputs = [], tmplOutputs = [],
               DAG = Some (workspaceTasks spec), Resource = None\<rparr>,
              mkResource ''service-resource'' resourceAction serviceManifest [],
              mkResource ''virtual-service-resource'' resourceAction virtualServiceManifest [],
              (mkResource ''stateful-set-resource'' resourceAction statefulSetManifest
                 ''status.readyReplicas > 0'')
                \<lparr>tmplOutputs := [(''update-revision'', ''{.status.updateRevision}'')]\<rparr>,
              (mkResource ''get-stateful-set-resource'' ''get'' getStatefulSetManifest
                 ''status.readyReplicas > 0, status.currentRevision == {{inputs.parameters.update-revision}}'')
                \<lparr>tmplInputs := [''update-revision'']\<rparr>,
              mkResource ''delete-stateful-set-resource'' resourceAction statefulSetManifest [],
              mkResource ''workspace-resource'' resourceAction workspaceManifest [],
              (mkResource ''delete-pvc-resource'' resourceAction deletePVCManifest [])
                \<lparr>tmplInputs := [''sys-pvc-name'']\<rparr>,
              curlNodeTemplate]
             @ (case PostExecutionWorkflow spec of None \<Rightarrow> [] | Some post \<Rightarrow> Templates post))))"

text \<open>
  \<open>generateWorkspaceTemplateWorkflowTemplate\<close>. Besides its result the model returns the
  documents that were assembled and handed to the serializer, in order, so that a
  statement can say which documents a run got to.
\<close>

definition generateWorkspaceTemplateWorkflowTemplate ::
  "Env \<Rightarrow> WorkspaceTemplate option \<Rightarrow> Document list \<times> (error + WorkflowTemplate)" where
  "generateWorkspaceTemplateWorkflowTemplate env workspaceTemplate =
     (case workspaceTemplate of
        None \<Rightarrow> ([], Inl (UserError InvalidArgument ''Workspace template manifest is required''))
      | Some wt \<Rightarrow>
     if Manifest wt = [] then
       ([], Inl (UserError InvalidArgument ''Workspace template manifest is required''))
     else
     (case GetSystemConfig env of
        Inl err \<Rightarrow> ([], Inl err)
      | Inr config \<Rightarrow>
     (case parseWorkspaceSpec env (Manifest wt) of
        Inl err \<Rightarrow> ([], Inl (UserError InvalidArgument (Error err)))
      | Inr spec0 \<Rightarrow>
     (case generateArguments spec0 config of
        Inl err \<Rightarrow> ([], Inl err)
      | Inr spec1 \<Rightarrow>
     (case yamlMarshal env (serviceDoc spec1) of
        Inl err \<Rightarrow> ([serviceDoc spec1], Inl err)
      | Inr serviceManifest \<Rightarrow>
     (case yamlMarshal env (virtualServiceDoc spec1) of
        Inl err \<Rightarrow> ([serviceDoc spec1, virtualServiceDoc spec1], Inl err)
      | Inr virtualServiceManifest \<Rightarrow>
     (let spec2 = rewriteRoutes spec1;
          docs2 = [serviceDoc spec1, virtualServiceDoc spec1]
      in
     (case ListServices env (Namespace wt) of
        Inl err \<Rightarrow> (docs2, Inl err)
      | Inr services \<Rightarrow>
     (let spec3 = specAfterStatefulSet spec2;
          docs3 = docs2 @ [StatefulSetDoc (statefulSet spec2)]
      in
     (case yamlMarshal env (StatefulSetDoc (statefulSet spec2)) of
        Inl err \<Rightarrow> (docs3, Inl err)
      | Inr statefulSetManifest \<Rightarrow>
     (case yamlMarshal env WorkspaceDoc of
        Inl err \<Rightarrow> (docs3 @ [WorkspaceDoc], Inl err)
      | Inr workspaceManifest \<Rightarrow>
     (case unmarshalWorkflowTemplate env spec3 serviceManifest virtualServiceManifest
             statefulSetManifest workspaceManifest of
        Inl err \<Rightarrow> (docs3 @ [WorkspaceDoc], Inl err)
      | Inr doc \<Rightarrow>
     (case yamlMarshal env doc of
        Inl err \<Rightarrow> (docs3 @ [WorkspaceDoc, doc], Inl err)
      | Inr workflowTemplateManifest \<Rightarrow>
          (docs3 @ [WorkspaceDoc, doc],
           Inr (emptyWorkflowTemplate
                 \<lparr>wfName := wtName wt,
                  wfManifest := replaceAll ''{{workspace.parameters.'' ''{{workflow.parameters.''
                                  workflowTemplateManifest\<rparr>)))))))))))))))"

section \<open>The version store\<close>

text \<open>
  A transaction works on a copy of the state: the writes of a transaction that is not
  committed are dropped with the copy (\<^verbatim>\<open>defer tx.Rollback()\<close>), and a commit puts the
  copy in place of the state.
\<close>

definition createWorkspaceTemplateVersionDB ::
  "Env \<Rightarrow> World \<Rightarrow> WorkspaceTemplate \<Rightarrow> error + World \<times> WorkspaceTemplate" where
  "createWorkspaceTemplateVersionDB env tx template =
     (case insertVersionErr env of
        Some err \<Rightarrow> Inl err
      | None \<Rightarrow>
          Inr (tx\<lparr>workspace_template_versions := workspace_template_versions tx @
                     [\<lparr>wtv_id = next_version_id tx,
                       wtv_workspace_template_id = ID template,
                       wtv_version = Version template,
                       wtv_is_latest = IsLatest template,
                       wtv_manifest = Manifest template,
                       wtv_labels = Labels template,
                       wtv_created_at = now env\<rparr>],
                  next_version_id := Suc (next_version_id tx)\<rparr>,
               template\<lparr>ID := next_version_id tx\<rparr>))"

definition markOutdated :: "nat \<Rightarrow> VersionRow \<Rightarrow> VersionRow" where
  "markOutdated workspaceTemplateID r =
     (if wtv_workspace_template_id r = workspaceTemplateID \<and> wtv_is_latest r
      then r\<lparr>wtv_is_latest := False\<rparr> else r)"

definition markWorkspaceTemplateVersionsOutdatedDB :: "Env \<Rightarrow> World \<Rightarrow> nat \<Rightarrow> error + World" where
  "markWorkspaceTemplateVersionsOutdatedDB env tx workspaceTemplateID =
     (case markOutdatedErr env of
        Some err \<Rightarrow> Inl err
      | None \<Rightarrow>
          Inr (tx\<lparr>workspace_template_versions :=
                     map (markOutdated workspaceTemplateID) (workspace_template_versions tx)\<rparr>))"

definition createLatestWorkspaceTemplateVersionDB ::
  "Env \<Rightarrow> World \<Rightarrow> WorkspaceTemplate option \<Rightarrow> error + World \<times> WorkspaceTemplate" where
  "createLatestWorkspaceTemplateVersionDB env tx template =
     (case template of
        None \<Rightarrow> Inl (Plain ''workspaceTemplate is nil'')
      | Some t \<Rightarrow>
          if ID t < 1 then Inl (Plain ''workspaceTemplate.ID is not set'')
          else (case markWorkspaceTemplateVersionsOutdatedDB env tx (ID t) of
                  Inl err \<Rightarrow> Inl err
                | Inr tx' \<Rightarrow> createWorkspaceTemplateVersionDB env tx' (t\<lparr>IsLatest := True\<rparr>)))"

text \<open>
  A call of \<open>ArchiveWorkflowTemplate\<close>: the collaborator's answer, and the state with the
  collaborator's tables as it left them and the call on record.
\<close>

definition callArchiveWorkflowTemplate ::
  "Env \<Rightarrow> World \<Rightarrow> string \<Rightarrow> string \<Rightarrow> (error + bool) \<times> World" where
  "callArchiveWorkflowTemplate env w namespace uid =
     (case ArchiveWorkflowTemplate env (workflow w) namespace uid of
        (r, tables) \<Rightarrow>
          (r, w\<lparr>workflow := tables, calls := calls w @ [CallArchiveWorkflowTemplate namespace uid]\<rparr>))"

definition insertWorkspaceTemplate ::
  "Env \<Rightarrow> World \<Rightarrow> string \<Rightarrow> WorkspaceTemplate \<Rightarrow> World \<times> WorkspaceTemplate" where
  "insertWorkspaceTemplate env tx namespace t =
     (tx\<lparr>workspace_templates := workspace_templates tx @
            [\<lparr>wt_id = next_template_id tx,
              wt_uid = UID t,
              wt_name = wtName t,
              wt_namespace = namespace,
              wt_description = Description t,
              wt_is_archived = False,
              wt_workflow_template_id = wfID (WorkflowTemplate t),
              wt_labels = Labels t,
              wt_created_at = now env\<rparr>],
         next_template_id := Suc (next_template_id tx)\<rparr>,
      t\<lparr>ID := next_template_id tx, CreatedAt := now env\<rparr>)"

definition cleanUpMessage :: string where
  "cleanUpMessage = ''Error with clean-up: ArchiveWorkflowTemplate. ''"

definition createWorkspaceTemplate ::
  "Env \<Rightarrow> World \<Rightarrow> string \<Rightarrow> WorkspaceTemplate \<Rightarrow> World \<times> (error + WorkspaceTemplate)" where
  "createWorkspaceTemplate env w namespace workspaceTemplate =
     (case GenerateUID env (wtName workspaceTemplate) of
        Inl err \<Rightarrow> (w, Inl err)
      | Inr uid \<Rightarrow>
     (let wft = (WorkflowTemplate workspaceTemplate)
                 \<lparr>wfIsSystem := True,
                  wfResource := Some (TypeWorkspaceTemplate env),
                  wfResourceUID := Some uid\<rparr>
      in
     (case validateWorkflowTemplate env namespace wft of
        Some err \<Rightarrow>
          (w, Inl (UserError InvalidArgument
                     (replaceAll ''{{workflow.'' ''{{workspace.'' (Error err))))
      | None \<Rightarrow>
     (case createWorkflowTemplate env (workflow w) namespace wft of
        (created, tables) \<Rightarrow>
     (let w1 = w\<lparr>workflow := tables,
                  calls := calls w @ [CallCreateWorkflowTemplate namespace (wfName wft)]\<rparr>
      in
     (case created of
        Inl err \<Rightarrow> (w1, Inl (NewUserErrorWrap env err ''Workflow template''))
      | Inr wft' \<Rightarrow>
     (let t = workspaceTemplate
                \<lparr>UID := uid, WorkflowTemplate := wft', Version := wfVersion wft', IsLatest := True\<rparr>
      in
     (case beginErr env of
        Some err \<Rightarrow> (w1, Inl err)
      | None \<Rightarrow>
     (case insertTemplateErr env of
        Some err \<Rightarrow>
          (case callArchiveWorkflowTemplate env w1 namespace (wfUID wft') of
             (Inl errCleanUp, w2) \<Rightarrow>
               (w2, Inl (NewUserErrorWrap env err
                  (''Error with insert into workspace_templates. '' @ cleanUpMessage
                   @ Error errCleanUp)))
           | (Inr _, w2) \<Rightarrow>
               (w2, Inl (NewUserErrorWrap env err ''Error with insert into workspace_templates. '')))
      | None \<Rightarrow>
     (case insertWorkspaceTemplate env w1 namespace t of
        (tx1, t1) \<Rightarrow>
     (case createWorkspaceTemplateVersionDB env tx1 t1 of
        Inl err \<Rightarrow>
          (case callArchiveWorkflowTemplate env w1 namespace (wfUID wft') of
             (Inl errCleanUp, w2) \<Rightarrow>
               (w2, Inl (NewUserErrorWrap env (Wrapf err (Error errCleanUp))
                  (''Error with insert into workspace_templates_versions. '' @ cleanUpMessage)))
           | (Inr _, w2) \<Rightarrow>
               (w2, Inl (NewUserErrorWrap env err
                  ''Error with insert into workspace_templates_versions. '')))
      | Inr (tx2, t2) \<Rightarrow>
     (case commitErr env of
        Some err \<Rightarrow>
          (case callArchiveWorkflowTemplate env w1 namespace (wfUID wft') of
             (Inl errArchive, w2) \<Rightarrow> (w2, Inl (Wrapf err (Error errArchive)))
           | (Inr _, w2) \<Rightarrow> (w2, Inl err))
      | None \<Rightarrow> (tx2, Inr t2)))))))))))))"

text \<open>
  What a query scans out of a row of \<open>workspace_templates\<close>. The column lists are not
  part of the sources at hand; the model scans the identity columns of the template, and
  the fields that no column fills keep their zero values.
\<close>

definition scanTemplate :: "TemplateRow \<Rightarrow> WorkspaceTemplate" where
  "scanTemplate r =
     \<lparr>ID = wt_id r, WorkspaceTemplateVersionID = 0, UID = wt_uid r, CreatedAt = wt_created_at r,
      wtName = wt_name r, Namespace = wt_namespace r, Description = wt_description r,
      Version = 0, Manifest = [], IsLatest = False, IsArchived = wt_is_archived r,
      Labels = wt_labels r, WorkflowTemplate = emptyWorkflowTemplate\<rparr>"

definition getWorkspaceTemplateByName ::
  "Env \<Rightarrow> World \<Rightarrow> string \<Rightarrow> string \<Rightarrow> error + WorkspaceTemplate option" where
  "getWorkspaceTemplateByName env w namespace name =
     (case queryErr env of
        Some err \<Rightarrow> Inl err
      | None \<Rightarrow>
          (case filter (\<lambda>r. wt_namespace r = namespace \<and> wt_name r = name \<and> \<not> wt_is_archived r)
                  (workspace_templates w) of
             [] \<Rightarrow> Inr None
           | r # _ \<Rightarrow> Inr (Some (scanTemplate r))))"

definition alreadyExistsMessage :: "WorkspaceTemplate \<Rightarrow> string \<Rightarrow> string" where
  "alreadyExistsMessage existing name =
     (if IsArchived existing
      then ''An archived workspace template with the name '' @ [CHR 0x27] @ name @ [CHR 0x27]
           @ '' already exists''
      else ''Workspace template with the name '' @ [CHR 0x27] @ name @ [CHR 0x27]
           @ '' already exists'')"

text \<open>The rewrite both public operations apply to an \<open>InvalidArgument\<close> user error.\<close>

definition rewriteInvalidArgument :: "error \<Rightarrow> error" where
  "rewriteInvalidArgument err =
     (case asUserError err of
        Some (code, message) \<Rightarrow>
          if code = InvalidArgument
          then UserError code (replaceAll ''{{workflow.'' ''{{workspace.'' message)
          else err
      | None \<Rightarrow> err)"

definition CreateWorkspaceTemplate ::
  "Env \<Rightarrow> World \<Rightarrow> string \<Rightarrow> WorkspaceTemplate \<Rightarrow> World \<times> (error + WorkspaceTemplate)" where
  "CreateWorkspaceTemplate env w namespace workspaceTemplate =
     (case ValidateStruct env workspaceTemplate of
        Some err \<Rightarrow> (w, Inl (UserError InvalidArgument (Error err)))
      | None \<Rightarrow>
     (let t = workspaceTemplate\<lparr>Namespace := namespace\<rparr> in
     (case getWorkspaceTemplateByName env w namespace (wtName t) of
        Inl err \<Rightarrow> (w, Inl err)
      | Inr (Some existingWorkspaceTemplate) \<Rightarrow>
          (w, Inl (UserError AlreadyExists
                     (alreadyExistsMessage existingWorkspaceTemplate (wtName t))))
      | Inr None \<Rightarrow>
     (case snd (generateWorkspaceTemplateWorkflowTemplate env (Some t)) of
        Inl err \<Rightarrow> (w, Inl err)
      | Inr wft \<Rightarrow>
     (case createWorkspaceTemplate env w namespace (t\<lparr>WorkflowTemplate := wft\<rparr>) of
        (w', Inl err) \<Rightarrow> (w', Inl (rewriteInvalidArgument err))
      | (w', Inr created) \<Rightarrow> (w', Inr created))))))"

text \<open>
  The select of \<open>workspaceTemplateVersionsSelectBuilder\<close>: the templates of the namespace
  with the uid, joined with their versions, their workflow template and its versions.
\<close>

type_synonym JoinedRow = "TemplateRow \<times> VersionRow \<times> WorkflowTemplateRow \<times> WorkflowTemplateVersionRow"

definition workspaceTemplateVersionsSelect :: "World \<Rightarrow> string \<Rightarrow> string \<Rightarrow> JoinedRow list" where
  "workspaceTemplateVersionsSelect w namespace uid =
     [(wt, wtv, wft, wftv).
        wt \<leftarrow> workspace_templates w,
        wtv \<leftarrow> workspace_template_versions w,
        wft \<leftarrow> workflow_templates (workflow w),
        wftv \<leftarrow> workflow_template_versions (workflow w),
        wtv_workspace_template_id wtv = wt_id wt,
        wft_id wft = wt_workflow_template_id wt,
        wftv_workflow_template_id wftv = wft_id wft,
        wt_uid wt = uid,
        wt_namespace wt = namespace]"

definition scanJoined :: "JoinedRow \<Rightarrow> WorkspaceTemplate" where
  "scanJoined row =
     (case row of (wt, wtv, wft, wftv) \<Rightarrow>
        (scanTemplate wt)
          \<lparr>WorkspaceTemplateVersionID := wtv_id wtv,
           CreatedAt := wtv_created_at wtv,
           Version := wtv_version wtv,
           Manifest := wtv_manifest wtv,
           Labels := wtv_labels wtv,
           WorkflowTemplate := emptyWorkflowTemplate
             \<lparr>wfID := wft_id wft, wfUID := wft_uid wft,
              wfVersion := wftv_version wftv, wfManifest := wftv_manifest wftv\<rparr>\<rparr>)"

text \<open>
  The rows the query of \<open>GetWorkspaceTemplate\<close> matches: not archived, and either the
  rows flagged latest (version 0) or the rows of the version asked for. \<open>Limit(1)\<close> takes
  the first of them; the order is the store's.
\<close>

definition getWorkspaceTemplateRows :: "World \<Rightarrow> string \<Rightarrow> string \<Rightarrow> int \<Rightarrow> JoinedRow list" where
  "getWorkspaceTemplateRows w namespace uid version =
     filter (\<lambda>(wt, wtv, wft, wftv).
               \<not> wt_is_archived wt \<and>
               (if version = 0 then wtv_is_latest wtv \<and> wftv_is_latest wftv
                else wtv_version wtv = version \<and> wftv_version wftv = version))
       (workspaceTemplateVersionsSelect w namespace uid)"

definition GetWorkspaceTemplate ::
  "Env \<Rightarrow> World \<Rightarrow> string \<Rightarrow> string \<Rightarrow> int \<Rightarrow> error + WorkspaceTemplate option" where
  "GetWorkspaceTemplate env w namespace uid version =
     (case queryErr env of
        Some err \<Rightarrow> Inl err
      | None \<Rightarrow>
     (case getWorkspaceTemplateRows w namespace uid version of
        [] \<Rightarrow> Inr None
      | row # _ \<Rightarrow>
     (case GetSystemConfig env of
        Inl err \<Rightarrow> Inl err
      | Inr sysConfig \<Rightarrow>
     (case InjectRuntimeParameters env sysConfig (WorkflowTemplate (scanJoined row)) of
        Inl err \<Rightarrow> Inl err
      | Inr wft \<Rightarrow> Inr (Some ((scanJoined row)\<lparr>WorkflowTemplate := wft\<rparr>))))))"

definition updateTemplateMetadata :: "WorkspaceTemplate \<Rightarrow> TemplateRow \<Rightarrow> TemplateRow" where
  "updateTemplateMetadata t r =
     (if wt_uid r = UID t \<and> wt_namespace r = Namespace t
      then r\<lparr>wt_labels := Labels t, wt_description := Description t\<rparr> else r)"

definition UpdateWorkspaceTemplate ::
  "Env \<Rightarrow> World \<Rightarrow> string \<Rightarrow> WorkspaceTemplate \<Rightarrow> World \<times> (error + WorkspaceTemplate)" where
  "UpdateWorkspaceTemplate env w namespace workspaceTemplate =
     (case GetWorkspaceTemplate env w namespace (UID workspaceTemplate) (Version workspaceTemplate) of
        Inl err \<Rightarrow> (w, Inl err)
      | Inr None \<Rightarrow> (w, Inl (UserError NotFound ''Workspace template not found.''))
      | Inr (Some existingWorkspaceTemplate) \<Rightarrow>
     (let t = workspaceTemplate
                \<lparr>ID := ID existingWorkspaceTemplate,
                 wtName := UID existingWorkspaceTemplate,
                 Namespace := Namespace existingWorkspaceTemplate\<rparr>
      in
     (case snd (generateWorkspaceTemplateWorkflowTemplate env (Some t)) of
        Inl err \<Rightarrow> (w, Inl err)
      | Inr generated \<Rightarrow>
     (let updatedWorkflowTemplate = generated
            \<lparr>wfID := wfID (WorkflowTemplate existingWorkspaceTemplate),
             wfUID := wfUID (WorkflowTemplate existingWorkspaceTemplate),
             wfLabels := Labels t\<rparr>
      in
     (case CreateWorkflowTemplateVersion env (workflow w) namespace updatedWorkflowTemplate of
        (created, tables) \<Rightarrow>
     (let w1 = w\<lparr>workflow := tables,
                  calls := calls w @
                    [CallCreateWorkflowTemplateVersion namespace (wfUID updatedWorkflowTemplate)]\<rparr>
      in
     (case created of
        Inl err \<Rightarrow> (w1, Inl (rewriteInvalidArgument err))
      | Inr workflowTemplateVersion \<Rightarrow>
     (let t1 = t\<lparr>Version := wfVersion workflowTemplateVersion, IsLatest := True\<rparr> in
     (case beginErr env of
        Some err \<Rightarrow> (w1, Inl err)
      | None \<Rightarrow>
     (case createLatestWorkspaceTemplateVersionDB env w1 (Some t1) of
        Inl err \<Rightarrow> (w1, Inl err)
      | Inr (tx1, t2) \<Rightarrow>
     (case updateTemplateErr env of
        Some err \<Rightarrow> (w1, Inl err)
      | None \<Rightarrow>
     (case commitErr env of
        Some err \<Rightarrow> (w1, Inl err)
      | None \<Rightarrow>
          (tx1\<lparr>workspace_templates :=
                  map (updateTemplateMetadata t2) (workspace_templates tx1)\<rparr>,
           Inr t2)))))))))))))"

text \<open>
  \<open>archiveWorkspaceTemplateDB\<close>: the update runs outside any transaction, so its rows
  stay written also when reading the number of affected rows fails.
\<close>

definition archiveRow :: "string \<Rightarrow> string \<Rightarrow> TemplateRow \<Rightarrow> bool" where
  "archiveRow namespace uid r =
     (wt_uid r = uid \<and> wt_namespace r = namespace \<and> \<not> wt_is_archived r)"

definition archiveWorkspaceTemplateDB ::
  "Env \<Rightarrow> World \<Rightarrow> string \<Rightarrow> string \<Rightarrow> World \<times> (error + bool)" where
  "archiveWorkspaceTemplateDB env w namespace uid =
     (case archiveExecErr env of
        Some err \<Rightarrow> (w, Inl err)
      | None \<Rightarrow>
     (let rowsAffected = length (filter (archiveRow namespace uid) (workspace_templates w));
          w' = w\<lparr>workspace_templates :=
                   map (\<lambda>r. if archiveRow namespace uid r then r\<lparr>wt_is_archived := True\<rparr> else r)
                     (workspace_templates w)\<rparr>
      in
     (case rowsAffectedErr env of
        Some err \<Rightarrow> (w', Inl err)
      | None \<Rightarrow> if rowsAffected = 0 then (w', Inr False) else (w', Inr True))))"

text \<open>
  The loop of \<open>ArchiveWorkspaceTemplate\<close> over the workspaces of the template: it stops
  at the first workspace that cannot be archived.
\<close>

fun archiveWorkspaces :: "Env \<Rightarrow> World \<Rightarrow> string \<Rightarrow> string list \<Rightarrow> World \<times> error option" where
  "archiveWorkspaces env w namespace [] = (w, None)"
| "archiveWorkspaces env w namespace (wsUID # rest) =
     (let w' = w\<lparr>calls := calls w @ [CallArchiveWorkspace namespace wsUID]\<rparr> in
      (case ArchiveWorkspace env namespace wsUID of
         Some err \<Rightarrow> (w', Some err)
       | None \<Rightarrow> archiveWorkspaces env w' namespace rest))"

definition unableToArchive :: error where
  "unableToArchive = UserError Unknown ''Unable to archive workspace template.''"

definition ArchiveWorkspaceTemplate ::
  "Env \<Rightarrow> World \<Rightarrow> string \<Rightarrow> string \<Rightarrow> World \<times> (error + bool)" where
  "ArchiveWorkspaceTemplate env w namespace uid =
     (case GetWorkspaceTemplate env w namespace uid 0 of
        Inl err \<Rightarrow> (w, Inl unableToArchive)
      | Inr None \<Rightarrow> (w, Inl (Plain ''not found''))
      | Inr (Some wsTemp) \<Rightarrow>
     (case ListWorkspacesByTemplateID env namespace (WorkspaceTemplateVersionID wsTemp) of
        Inl err \<Rightarrow> (w, Inl unableToArchive)
      | Inr wsList \<Rightarrow>
     (case archiveWorkspaces env w namespace wsList of
        (w1, Some err) \<Rightarrow> (w1, Inl unableToArchive)
      | (w1, None) \<Rightarrow>
     (case archiveWorkspaceTemplateDB env w1 namespace (UID wsTemp) of
        (w2, Inl err) \<Rightarrow> (w2, Inl unableToArchive)
      | (w2, Inr _) \<Rightarrow>
     (case callArchiveWorkflowTemplate env w2 namespace (UID wsTemp) of
        (Inl err, w3) \<Rightarrow> (w3, Inl unableToArchive)
      | (Inr _, w3) \<Rightarrow> (w3, Inr True))))))"

section \<open>States the store can reach\<close>

text \<open>
  The number of rows of \<open>workspace_template_versions\<close> that belong to a template and
  are flagged latest, and the property that no template has more than one.
\<close>

definition latestCount :: "World \<Rightarrow> nat \<Rightarrow> nat" where
  "latestCount w workspaceTemplateID =
     length (filter (\<lambda>r. wtv_workspace_template_id r = workspaceTemplateID \<and> wtv_is_latest r)
               (workspace_template_versions w))"

definition singleLatest :: "World \<Rightarrow> bool" where
  "singleLatest w = (\<forall>workspaceTemplateID. latestCount w workspaceTemplateID \<le> 1)"

text \<open>
  The ids the two id columns refer to were handed out by the sequence of
  \<open>workspace_templates\<close>: they lie below its next value.
\<close>

definition referencesAllocated :: "World \<Rightarrow> bool" where
  "referencesAllocated w =
     (list_all (\<lambda>r. wt_id r < next_template_id w) (workspace_templates w)
      \<and> list_all (\<lambda>v. wtv_workspace_template_id v < next_template_id w)
            (workspace_template_versions w))"

text \<open>
  Two states with the same workspace tables and sequences; they may differ in the
  collaborator's tables and in the calls on record.
\<close>

definition sameStore :: "World \<Rightarrow> World \<Rightarrow> bool" where
  "sameStore w w' =
     (workspace_templates w' = workspace_templates w
      \<and> workspace_template_versions w' = workspace_template_versions w
      \<and> next_template_id w' = next_template_id w
      \<and> next_version_id w' = next_version_id w)"

text \<open>
  The states of a running system: it starts with empty workspace tables and sequences
  at 1, and every step is one of the three public operations, run to its end in any
  environment, or a change the collaborator makes to its own tables.
\<close>

definition emptyWorld :: "WorkflowTables \<Rightarrow> World" where
  "emptyWorld tables =
     \<lparr>workspace_templates = [], workspace_template_versions = [],
      next_template_id = 1, next_version_id = 1, workflow = tables, calls = []\<rparr>"

inductive reachable :: "World \<Rightarrow> bool" where
  reachable_empty: "reachable (emptyWorld tables)"
| reachable_create: "reachable w \<Longrightarrow> reachable (fst (CreateWorkspaceTemplate env w namespace t))"
| reachable_update: "reachable w \<Longrightarrow> reachable (fst (UpdateWorkspaceTemplate env w namespace t))"
| reachable_archive: "reachable w \<Longrightarrow> reachable (fst (ArchiveWorkspaceTemplate env w namespace uid))"
| reachable_collaborator: "reachable w \<Longrightarrow> reachable (w\<lparr>workflow := tables\<rparr>)"

section \<open>Example inputs\<close>

text \<open>Concrete inputs on which the definitions above are run.\<close>

definition exampleConfig :: SystemConfig where
  "exampleConfig =
     \<lparr>Domain = Some ''example.com'', NodePoolLabel = Some ''node.kubernetes.io/pool'',
      NodePoolOptions = Inr [\<lparr>optName = ''small'', optValue = ''n1-small''\<rparr>]\<rparr>"

definition dataMount :: "string \<Rightarrow> VolumeMount" where
  "dataMount path = \<lparr>vmName = ''data'', MountPath = path\<rparr>"

text \<open>Two containers that share the volume \<open>data\<close>, and one parameter of the user's.\<close>

definition exampleSpec :: WorkspaceSpec where
  "exampleSpec =
     \<lparr>Arguments = Some [mkParameter ''user-param'' ''input.text'' None],
      Containers = [\<lparr>cName = ''main'', VolumeMounts = [dataMount ''/data'']\<rparr>,
                    \<lparr>cName = ''sidecar'', VolumeMounts = [dataMount ''/mnt/data'']\<rparr>],
      Ports = [], Routes = [], VolumeClaimTemplates = [], PostExecutionWorkflow = None\<rparr>"

text \<open>One container that mounts the projected configuration volume.\<close>

definition reservedMountSpec :: WorkspaceSpec where
  "reservedMountSpec =
     \<lparr>Arguments = None,
      Containers = [\<lparr>cName = ''main'',
                     VolumeMounts = [\<lparr>vmName = ''sys-namespace-config'',
                                      MountPath = ''/etc/onepanel''\<rparr>]\<rparr>],
      Ports = [], Routes = [], VolumeClaimTemplates = [], PostExecutionWorkflow = None\<rparr>"

text \<open>The names of the parameters of a spec that \<open>generateArguments\<close> returned.\<close>

definition argumentNames :: "error + WorkspaceSpec \<Rightarrow> error + string list" where
  "argumentNames r =
     map_sum id (\<lambda>s. map Name (case Arguments s of None \<Rightarrow> [] | Some ps \<Rightarrow> ps)) r"

text \<open>
  A template to create, and collaborators that succeed: registering a workflow template
  stores it with the next id and version 1, registering a version stores the next version
  and flags it latest.
\<close>

definition exampleTemplate :: WorkspaceTemplate where
  "exampleTemplate =
     \<lparr>ID = 0, WorkspaceTemplateVersionID = 0, UID = [], CreatedAt = 0, wtName = ''ml-1'',
      Namespace = [], Description = ''notebooks'', Version = 0, Manifest = ''containers: ...'',
      IsLatest = False, IsArchived = False, Labels = [],
      WorkflowTemplate = emptyWorkflowTemplate\<rparr>"

definition registerWorkflowTemplate ::
  "WorkflowTables \<Rightarrow> string \<Rightarrow> WorkflowTemplate \<Rightarrow> (error + WorkflowTemplate) \<times> WorkflowTables" where
  "registerWorkflowTemplate tables namespace t =
     (let i = Suc (length (workflow_templates tables)) in
      (Inr (t\<lparr>wfID := i, wfUID := wfName t, wfVersion := 1\<rparr>),
       tables\<lparr>workflow_templates := workflow_templates tables @
                 [\<lparr>wft_id = i, wft_uid = wfName t, wft_is_archived = False\<rparr>],
               workflow_template_versions := workflow_template_versions tables @
                 [\<lparr>wftv_workflow_template_id = i, wftv_version = 1, wftv_is_latest = True,
                   wftv_manifest = wfManifest t\<rparr>]\<rparr>))"

definition registerWorkflowTemplateVersion ::
  "WorkflowTables \<Rightarrow> string \<Rightarrow> WorkflowTemplate \<Rightarrow> (error + WorkflowTemplate) \<times> WorkflowTables" where
  "registerWorkflowTemplateVersion tables namespace t =
     (let n = 1 + int (length (filter (\<lambda>r. wftv_workflow_template_id r = wfID t)
                                  (workflow_template_versions tables)))
      in (Inr (t\<lparr>wfVersion := n\<rparr>),
          tables\<lparr>workflow_template_versions :=
                    map (\<lambda>r. if wftv_workflow_template_id r = wfID t
                              then r\<lparr>wftv_is_latest := False\<rparr> else r)
                      (workflow_template_versions tables) @
                    [\<lparr>wftv_workflow_template_id = wfID t, wftv_version = n,
                      wftv_is_latest = True, wftv_manifest = wfManifest t\<rparr>]\<rparr>))"

definition exampleEnv :: Env where
  "exampleEnv =
     \<lparr>GetSystemConfig = Inr exampleConfig,
      parseWorkspaceSpec = (\<lambda>_. Inr exampleSpec),
      ListServices = (\<lambda>_. Inr []),
      yamlMarshal = (\<lambda>_. Inr ''yaml''),
      getCURLNodeTemplate = (\<lambda>name method path body inputs.
        Inr \<lparr>tmplName = name, tmplInputs = inputs, tmplOutputs = [], DAG = None, Resource = None\<rparr>),
      ValidateStruct = (\<lambda>_. None),
      GenerateUID = (\<lambda>name. Inr name),
      TypeWorkspaceTemplate = ''workspace_template'',
      NewUserErrorWrap = (\<lambda>err entity. UserError Unknown (entity @ ''('' @ Error err @ '')'')),
      InjectRuntimeParameters = (\<lambda>_ t. Inr t),
      validateWorkflowTemplate = (\<lambda>_ _. None),
      createWorkflowTemplate = registerWorkflowTemplate,
      CreateWorkflowTemplateVersion = registerWorkflowTemplateVersion,
      ArchiveWorkflowTemplate = (\<lambda>tables _ _. (Inr True, tables)),
      ListWorkspacesByTemplateID = (\<lambda>_ _. Inr []),
      ArchiveWorkspace = (\<lambda>_ _. None),
      queryErr = None, beginErr = None, insertTemplateErr = None, insertVersionErr = None,
      markOutdatedErr = None, updateTemplateErr = None, commitErr = None,
      archiveExecErr = None, rowsAffectedErr = None, now = 30\<rparr>"

text \<open>
  The same environment with a system configuration that has no node-pool option.
\<close>

definition noPoolsEnv :: Env where
  "noPoolsEnv = exampleEnv\<lparr>GetSystemConfig := Inr (exampleConfig\<lparr>NodePoolOptions := Inr []\<rparr>)\<rparr>"

text \<open>
  What a run of the pipeline assembled: the items of the \<open>delete-pvc\<close> task of every
  workflow document, and the names of the volume claims of every stateful-set document.
\<close>

definition fanOutItems :: "Document list \<Rightarrow> string list list" where
  "fanOutItems docs =
     [WithItems task.
        WorkflowTemplateSpecDoc _ _ templates \<leftarrow> docs,
        t \<leftarrow> templates,
        Some tasks \<leftarrow> [DAG t],
        task \<leftarrow> tasks,
        taskName task = ''delete-pvc'']"

definition claimNames :: "Document list \<Rightarrow> string list list" where
  "claimNames docs = [map claimName (volumeClaimTemplates s). StatefulSetDoc s \<leftarrow> docs]"

text \<open>
  A history: the template \<open>ml-1\<close> is created in an empty store, updated once, and
  archived. \<open>secondTemplate\<close> is another template to create.
\<close>

definition updateRequest :: WorkspaceTemplate where
  "updateRequest = exampleTemplate\<lparr>UID := ''ml-1''\<rparr>"

definition secondTemplate :: WorkspaceTemplate where
  "secondTemplate = exampleTemplate\<lparr>wtName := ''ml-2''\<rparr>"

definition createdWorld :: World where
  "createdWorld =
     fst (CreateWorkspaceTemplate exampleEnv
            (emptyWorld \<lparr>workflow_templates = [], workflow_template_versions = []\<rparr>)
            ''team-a'' exampleTemplate)"

definition updatedWorld :: World where
  "updatedWorld = fst (UpdateWorkspaceTemplate exampleEnv createdWorld ''team-a'' updateRequest)"

definition retiredWorld :: World where
  "retiredWorld = fst (ArchiveWorkspaceTemplate exampleEnv updatedWorld ''team-a'' ''ml-1'')"












section \<open>The parameter injector\<close>

lemmas generateArguments_defs =
  generateArguments_def generateRuntimeParameters_def systemParameters_def mkParameter_def
  systemVolumeParameters_def volumeSizeStep_def volumeStorageQuantityIsSet_def
  volumeSizeParameter_def

text \<open>
  C6, as stated, fails. On the example spec the merged sequence starts with the
  workspace-name parameter, not with the host; the host and the node-pool parameters come
  after the four placeholders; and the volume-size parameter comes last, after the
  parameter the user declared. The second sequence is the order the claim gives for this
  spec.
\<close>

theorem generateArguments_order_counterexample:
  "argumentNames (generateArguments exampleSpec exampleConfig) =
     Inr [''sys-name'', ''sys-resource-action'', ''sys-workspace-action'', ''sys-uid'',
          ''sys-host'', ''sys-node-pool-label'', ''sys-node-pool'',
          ''user-param'', ''sys-data-volume-size'']
   \<and> argumentNames (generateArguments exampleSpec exampleConfig) \<noteq>
     Inr [''sys-host'', ''sys-node-pool-label'', ''sys-node-pool'',
          ''sys-name'', ''sys-resource-action'', ''sys-workspace-action'', ''sys-uid'',
          ''sys-data-volume-size'', ''user-param'']"
  by (simp add: argumentNames_def generateArguments_defs exampleSpec_def exampleConfig_def
      dataMount_def)

text \<open>
  C6, amended. Whenever the runtime parameters can be generated, \<open>generateArguments\<close>
  succeeds and the merged sequence is: the workspace name (a text input), the
  resource-action, workspace-action and unique-id placeholders (hidden), the host and the
  node-pool label key (hidden), the node-pool select; then the parameters the user
  declared; then the synthesized volume-size parameters.
\<close>

theorem generateArguments_order:
  assumes "generateRuntimeParameters config = Inr runtime"
  shows "generateArguments spec config =
           Inr (spec\<lparr>Arguments := Some (systemParameters @ runtime
                  @ (case Arguments spec of None \<Rightarrow> [] | Some ps \<Rightarrow> ps)
                  @ systemVolumeParameters spec)\<rparr>)
         \<and> map (\<lambda>p. (Name p, Type p)) (systemParameters @ runtime) =
             [(''sys-name'', ''input.text''), (''sys-resource-action'', ''input.hidden''),
              (''sys-workspace-action'', ''input.hidden''), (''sys-uid'', ''input.hidden''),
              (''sys-host'', ''input.hidden''), (''sys-node-pool-label'', ''input.hidden''),
              (''sys-node-pool'', ''select.select'')]"
proof -
  from assms obtain option0 options where
    "NodePoolOptions config = Inr (option0 # options)"
    by (auto simp: generateRuntimeParameters_def split: sum.splits list.splits)
  with assms show ?thesis
    by (auto simp: generateArguments_def generateRuntimeParameters_def systemParameters_def
        mkParameter_def)
qed

text \<open>
  C6, amended, on the example spec and configuration.
\<close>

theorem generateArguments_order_witness:
  "generateRuntimeParameters exampleConfig =
     Inr [mkParameter ''sys-host'' ''input.hidden'' (Some ''example.com''),
          mkParameter ''sys-node-pool-label'' ''input.hidden'' (Some ''node.kubernetes.io/pool''),
          \<lparr>Name = ''sys-node-pool'', Type = ''select.select'', Value = Some ''n1-small'',
           DisplayName = Some ''Node pool'', Hint = Some ''Name of node pool or group'',
           Required = True, Options = [\<lparr>optName = ''small'', optValue = ''n1-small''\<rparr>]\<rparr>]
   \<and> argumentNames (generateArguments exampleSpec exampleConfig) =
       Inr ([''sys-name'', ''sys-resource-action'', ''sys-workspace-action'', ''sys-uid'',
             ''sys-host'', ''sys-node-pool-label'', ''sys-node-pool'']
            @ [''user-param''] @ [''sys-data-volume-size''])"
proof -
  have runtime: "generateRuntimeParameters exampleConfig =
     Inr [mkParameter ''sys-host'' ''input.hidden'' (Some ''example.com''),
          mkParameter ''sys-node-pool-label'' ''input.hidden'' (Some ''node.kubernetes.io/pool''),
          \<lparr>Name = ''sys-node-pool'', Type = ''select.select'', Value = Some ''n1-small'',
           DisplayName = Some ''Node pool'', Hint = Some ''Name of node pool or group'',
           Required = True, Options = [\<lparr>optName = ''small'', optValue = ''n1-small''\<rparr>]\<rparr>]"
    by (simp add: generateRuntimeParameters_def exampleConfig_def)
  have volumes: "map Name (systemVolumeParameters exampleSpec) = [''sys-data-volume-size'']"
    by (simp add: systemVolumeParameters_def volumeSizeStep_def volumeStorageQuantityIsSet_def
        volumeSizeParameter_def exampleSpec_def dataMount_def)
  from generateArguments_order [OF runtime, of exampleSpec]
  have "argumentNames (generateArguments exampleSpec exampleConfig) =
       Inr ([''sys-name'', ''sys-resource-action'', ''sys-workspace-action'', ''sys-uid'',
             ''sys-host'', ''sys-node-pool-label'', ''sys-node-pool'']
            @ [''user-param''] @ map Name (systemVolumeParameters exampleSpec))"
    by (simp add: argumentNames_def systemParameters_def mkParameter_def exampleSpec_def)
  with runtime volumes show ?thesis by simp
qed

text \<open>
  C4 on a spec whose container mounts \<open>sys-namespace-config\<close>: \<open>generateArguments\<close>
  synthesizes a volume-size parameter for the reserved name, while
  \<open>createStatefulSetManifest\<close> makes no volume claim for it.
\<close>

theorem generateArguments_reserved_mount:
  "argumentNames (generateArguments reservedMountSpec exampleConfig) =
     Inr [''sys-name'', ''sys-resource-action'', ''sys-workspace-action'', ''sys-uid'',
          ''sys-host'', ''sys-node-pool-label'', ''sys-node-pool'',
          ''sys-sys-namespace-config-volume-size'']
   \<and> map claimName (volumeClaims reservedMountSpec) = []"
  by (simp add: argumentNames_def generateArguments_defs reservedMountSpec_def exampleConfig_def
      volumeClaims_def statefulSetLoops_def containerStep_def mountClaimStep_def)

text \<open>
  What \<open>generateArguments\<close> synthesizes in general: one parameter for the first mount
  of every name that no volume-claim template with requests covers, and no two parameters
  of one name. A reserved name is a name like any other here.
\<close>

lemma firstByName_names:
  "set (map vmName (firstByName seen vs)) = vmName ` set vs - seen"
  by (induction vs arbitrary: seen) auto

lemma firstByName_distinct: "distinct (map vmName (firstByName seen vs))"
proof (induction vs arbitrary: seen)
  case Nil
  show ?case by simp
next
  case (Cons v vs)
  have "vmName v \<notin> set (map vmName (firstByName (insert (vmName v) seen) vs))"
    unfolding firstByName_names by simp
  with Cons show ?case by simp
qed

lemma fold_nested: "fold (\<lambda>c. fold f (g c)) cs st = fold f (concat (map g cs)) st"
  by (induction cs arbitrary: st) simp_all

lemma fold_volumeSizeStep:
  "fold (volumeSizeStep isSet) vs (ps, mapped) =
     (ps @ map volumeSizeParameter (firstByName (mapped \<union> isSet) vs),
      mapped \<union> vmName ` set (firstByName (mapped \<union> isSet) vs))"
proof (induction vs arbitrary: ps mapped)
  case Nil
  show ?case by simp
next
  case (Cons v vs)
  show ?case
  proof (cases "vmName v \<in> mapped \<or> vmName v \<in> isSet")
    case True
    then have "volumeSizeStep isSet v (ps, mapped) = (ps, mapped)"
      by (simp add: volumeSizeStep_def)
    with True Cons.IH [of ps mapped] show ?thesis by auto
  next
    case False
    then have "volumeSizeStep isSet v (ps, mapped) =
        (ps @ [volumeSizeParameter v], insert (vmName v) mapped)"
      by (simp add: volumeSizeStep_def)
    with False Cons.IH [of "ps @ [volumeSizeParameter v]" "insert (vmName v) mapped"]
    show ?thesis by simp
  qed
qed

lemma systemVolumeParameters_eq:
  "systemVolumeParameters spec =
     map volumeSizeParameter
       (firstByName (volumeStorageQuantityIsSet (VolumeClaimTemplates spec)) (allMounts spec))"
  by (simp add: systemVolumeParameters_def allMounts_def fold_nested fold_volumeSizeStep)

lemma reserved_name_gets_parameter:
  assumes "v \<in> set (allMounts spec)"
    and "vmName v \<notin> volumeStorageQuantityIsSet (VolumeClaimTemplates spec)"
  shows "''sys-'' @ vmName v @ ''-volume-size'' \<in> set (map Name (systemVolumeParameters spec))"
proof -
  let ?first = "firstByName (volumeStorageQuantityIsSet (VolumeClaimTemplates spec)) (allMounts spec)"
  from assms have "vmName v \<in> set (map vmName ?first)"
    unfolding firstByName_names by simp
  then obtain u where "u \<in> set ?first" "vmName u = vmName v" by auto
  then have "Name (volumeSizeParameter u) = ''sys-'' @ vmName v @ ''-volume-size''"
    by (simp add: volumeSizeParameter_def)
  with \<open>u \<in> set ?first\<close> show ?thesis
    unfolding systemVolumeParameters_eq by force
qed

lemma systemVolumeParameters_distinct:
  "distinct (map Name (systemVolumeParameters spec))"
proof -
  let ?name = "\<lambda>n::string. ''sys-'' @ n @ ''-volume-size''"
  let ?first = "firstByName (volumeStorageQuantityIsSet (VolumeClaimTemplates spec)) (allMounts spec)"
  have names: "map Name (systemVolumeParameters spec) = map ?name (map vmName ?first)"
    unfolding systemVolumeParameters_eq by (simp add: volumeSizeParameter_def comp_def)
  have "inj ?name" by (rule injI) simp
  then have "inj_on ?name (set (map vmName ?first))" by (rule inj_on_subset) simp
  with firstByName_distinct [of _ "allMounts spec"]
  have "distinct (map ?name (map vmName ?first))" by (subst distinct_map) blast
  with names show ?thesis by simp
qed

section \<open>The compiled task graph\<close>

lemmas pipeline_defs = generateWorkspaceTemplateWorkflowTemplate_def unmarshalWorkflowTemplate_def
  serviceDoc_def virtualServiceDoc_def rewriteRoutes_def statefulSet_def specAfterStatefulSet_def
  volumeClaims_def statefulSetLoops_def containerStep_def mountClaimStep_def declaredClaimStep_def
  workspaceTasks_def volumeClaimItems_def volumeClaimItemStep_def mkTask_def mkResource_def
  sysDshmMount_def synthesizedClaim_def

text \<open>
  C5 on the example spec, whose two containers mount the one volume \<open>data\<close>. The
  stateful set gets the single claim \<open>data\<close>, but the \<open>delete-pvc\<close> task of the
  compiled graph fans out over \<open>data\<close> and \<open>sys-dshm\<close>:
  \<open>createStatefulSetManifest\<close> has appended the \<open>sys-dshm\<close> mount to the containers
  of the spec before \<open>unmarshalWorkflowTemplate\<close> collects the mount names, and
  \<open>sys-dshm\<close> is a memory-backed volume with no claim.
\<close>

theorem delete_pvc_items_include_sys_dshm:
  "fanOutItems (fst (generateWorkspaceTemplateWorkflowTemplate exampleEnv (Some exampleTemplate)))
     = [[''data'', ''sys-dshm'']]
   \<and> claimNames (fst (generateWorkspaceTemplateWorkflowTemplate exampleEnv (Some exampleTemplate)))
     = [[''data'']]"
  by (simp add: fanOutItems_def claimNames_def pipeline_defs generateArguments_defs
      exampleEnv_def exampleTemplate_def exampleSpec_def exampleConfig_def dataMount_def)

text \<open>
  The same in general. The fan-out walks the mounts of the containers as
  \<open>createStatefulSetManifest\<close> left them, so whenever the spec has a container it has
  the item \<open>sys-dshm\<close>, for which there is no claim unless the user declared a
  volume-claim template of that name. The edges of the fan-out are fixed: \<open>delete-pvc\<close>
  depends on \<open>delete-workspace\<close>, and \<open>sys-set-phase-terminated\<close> on
  \<open>delete-pvc\<close>.
\<close>

lemma fold_volumeClaimItemStep:
  "fold volumeClaimItemStep vs (items, mapped) =
     (items @ map vmName (firstByName mapped vs),
      mapped \<union> vmName ` set (firstByName mapped vs))"
proof (induction vs arbitrary: items mapped)
  case Nil
  show ?case by simp
next
  case (Cons v vs)
  show ?case
  proof (cases "vmName v \<in> mapped")
    case True
    then have "volumeClaimItemStep v (items, mapped) = (items, mapped)"
      by (simp add: volumeClaimItemStep_def)
    with True Cons.IH [of items mapped] show ?thesis by simp
  next
    case False
    then have "volumeClaimItemStep v (items, mapped) =
        (items @ [vmName v], insert (vmName v) mapped)"
      by (simp add: volumeClaimItemStep_def)
    with False Cons.IH [of "items @ [vmName v]" "insert (vmName v) mapped"]
    show ?thesis by simp
  qed
qed

lemma volumeClaimItems_eq:
  "volumeClaimItems spec = map vmName (firstByName {} (allMounts spec))"
  by (simp add: volumeClaimItems_def allMounts_def fold_nested fold_volumeClaimItemStep)

lemma fold_mountClaimStep:
  "fold mountClaimStep vs (claims, mapped) =
     (claims @ map synthesizedClaim (firstByName mapped vs),
      mapped \<union> vmName ` set (firstByName mapped vs))"
proof (induction vs arbitrary: claims mapped)
  case Nil
  show ?case by simp
next
  case (Cons v vs)
  show ?case
  proof (cases "vmName v \<in> mapped")
    case True
    then have "mountClaimStep v (claims, mapped) = (claims, mapped)"
      by (simp add: mountClaimStep_def)
    with True Cons.IH [of claims mapped] show ?thesis by simp
  next
    case False
    then have "mountClaimStep v (claims, mapped) =
        (claims @ [synthesizedClaim v], insert (vmName v) mapped)"
      by (simp add: mountClaimStep_def)
    with False Cons.IH [of "claims @ [synthesizedClaim v]" "insert (vmName v) mapped"]
    show ?thesis by simp
  qed
qed

lemma fold_containerStep:
  "fold containerStep cs ((claims, mapped), finished) =
     (fold mountClaimStep (concat (map VolumeMounts cs)) (claims, mapped),
      finished @ map withSysDshm cs)"
proof (induction cs arbitrary: claims mapped finished)
  case Nil
  show ?case by simp
next
  case (Cons c cs)
  obtain claims' mapped' where
    s: "fold mountClaimStep (VolumeMounts c) (claims, mapped) = (claims', mapped')"
    by (cases "fold mountClaimStep (VolumeMounts c) (claims, mapped)") auto
  then have "containerStep c ((claims, mapped), finished) =
      ((claims', mapped'), finished @ [withSysDshm c])"
    by (simp add: containerStep_def withSysDshm_def)
  with s Cons.IH [of claims' mapped' "finished @ [withSysDshm c]"] show ?case by simp
qed

lemma fold_declaredClaimStep_names:
  "set (map claimName (fst (fold declaredClaimStep vs (claims, mapped)))) \<subseteq>
     set (map claimName claims) \<union> vctName ` set vs"
proof (induction vs arbitrary: claims mapped)
  case Nil
  show ?case by simp
next
  case (Cons v vs)
  show ?case
  proof (cases "vctName v \<in> mapped")
    case True
    then have "declaredClaimStep v (claims, mapped) = (claims, mapped)"
      by (simp add: declaredClaimStep_def)
    with Cons.IH [of claims mapped] show ?thesis by auto
  next
    case False
    then have "declaredClaimStep v (claims, mapped) =
        (claims @ [declaredClaim v], insert (vctName v) mapped)"
      by (simp add: declaredClaimStep_def)
    with Cons.IH [of "claims @ [declaredClaim v]" "insert (vctName v) mapped"]
    show ?thesis by (auto simp: declaredClaim_def)
  qed
qed

lemma Containers_after_statefulSet:
  "Containers (specAfterStatefulSet spec) = map withSysDshm (Containers spec)"
proof -
  obtain claims mapped where
    "fold declaredClaimStep (VolumeClaimTemplates spec) ([], {}) = (claims, mapped)"
    by (cases "fold declaredClaimStep (VolumeClaimTemplates spec) ([], {})") auto
  then show ?thesis
    by (simp add: specAfterStatefulSet_def statefulSetLoops_def fold_containerStep)
qed

lemma volumeClaims_names:
  "set (map claimName (volumeClaims spec)) \<subseteq>
     vctName ` set (VolumeClaimTemplates spec)
     \<union> (vmName ` set (allMounts spec) - {''sys-dshm'', ''sys-namespace-config''})"
proof -
  obtain claims mapped where
    d: "fold declaredClaimStep (VolumeClaimTemplates spec) ([], {}) = (claims, mapped)"
    by (cases "fold declaredClaimStep (VolumeClaimTemplates spec) ([], {})") auto
  let ?mapped = "insert ''sys-namespace-config'' (insert ''sys-dshm'' mapped)"
  from d have "volumeClaims spec =
      claims @ map synthesizedClaim (firstByName ?mapped (allMounts spec))"
    by (simp add: volumeClaims_def statefulSetLoops_def fold_containerStep fold_mountClaimStep
        allMounts_def Let_def)
  moreover from fold_declaredClaimStep_names [of "VolumeClaimTemplates spec" "[]" "{}"] d
  have "set (map claimName claims) \<subseteq> vctName ` set (VolumeClaimTemplates spec)" by simp
  moreover have "set (map claimName (map synthesizedClaim (firstByName ?mapped (allMounts spec))))
      = set (map vmName (firstByName ?mapped (allMounts spec)))"
    by (simp add: synthesizedClaim_def comp_def)
  moreover have "set (map vmName (firstByName ?mapped (allMounts spec)))
      \<subseteq> vmName ` set (allMounts spec) - {''sys-dshm'', ''sys-namespace-config''}"
    unfolding firstByName_names by auto
  ultimately show ?thesis by auto
qed

lemma sys_dshm_item_without_claim:
  assumes "Containers spec \<noteq> []"
    and "''sys-dshm'' \<notin> vctName ` set (VolumeClaimTemplates spec)"
  shows "''sys-dshm'' \<in> set (volumeClaimItems (specAfterStatefulSet spec))"
    and "''sys-dshm'' \<notin> set (map claimName (volumeClaims spec))"
proof -
  from assms(1) obtain c cs where "Containers spec = c # cs" by (cases "Containers spec") auto
  then have "sysDshmMount \<in> set (allMounts (specAfterStatefulSet spec))"
    by (simp add: allMounts_def Containers_after_statefulSet withSysDshm_def)
  then have "''sys-dshm'' \<in> vmName ` set (allMounts (specAfterStatefulSet spec))"
    by (force simp: sysDshmMount_def)
  then show "''sys-dshm'' \<in> set (volumeClaimItems (specAfterStatefulSet spec))"
    unfolding volumeClaimItems_eq firstByName_names by simp
  from volumeClaims_names [of spec] assms(2)
  show "''sys-dshm'' \<notin> set (map claimName (volumeClaims spec))" by auto
qed

lemma delete_pvc_task:
  "workspaceTasks spec ! 7 =
     \<lparr>taskName = ''delete-pvc'', taskTemplate = ''delete-pvc-resource'',
      Dependencies = [''delete-workspace''], When = whenDelete,
      taskArguments = [(''sys-pvc-name'', ''{{item}}'')],
      WithItems = volumeClaimItems spec\<rparr>
   \<and> workspaceTasks spec ! 6 =
     \<lparr>taskName = ''delete-workspace'', taskTemplate = ''workspace-resource'',
      Dependencies = [''delete-stateful-set''], When = whenPauseOrDelete,
      taskArguments = [], WithItems = []\<rparr>
   \<and> workspaceTasks spec ! 10 =
     \<lparr>taskName = ''sys-set-phase-terminated'', taskTemplate = ''sys-update-status'',
      Dependencies = [''delete-pvc''], When = whenDelete,
      taskArguments = [(''sys-workspace-phase'', ''Terminated'')], WithItems = []\<rparr>"
  by (simp add: workspaceTasks_def mkTask_def nth_append eval_nat_numeral)

text \<open>
  C8. When the system configuration has no node-pool option, the compile pipeline fails
  with the error of \<open>generateRuntimeParameters\<close>, \<open>no node pool options in config\<close>
  (the error the specification classes as an invalid configuration; the code gives it no
  status code). The failure is that of \<open>generateArguments\<close>, the parameter injection,
  and no document has been assembled by then, whatever the serializer and the other
  collaborators would have done.
\<close>

theorem empty_node_pools_fail_before_documents:
  assumes "Manifest wt \<noteq> []"
    and "GetSystemConfig env = Inr config"
    and "NodePoolOptions config = Inr []"
    and "parseWorkspaceSpec env (Manifest wt) = Inr spec"
  shows "generateArguments spec config = Inl (Plain ''no node pool options in config'')
     \<and> generateWorkspaceTemplateWorkflowTemplate env (Some wt) =
         ([], Inl (Plain ''no node pool options in config''))"
  using assms
  by (simp add: generateWorkspaceTemplateWorkflowTemplate_def generateArguments_def
      generateRuntimeParameters_def)

text \<open>
  The hypotheses of C8 hold in the environment without node pools.
\<close>

theorem empty_node_pools_fail_before_documents_witness:
  "Manifest exampleTemplate \<noteq> []
   \<and> GetSystemConfig noPoolsEnv = Inr (exampleConfig\<lparr>NodePoolOptions := Inr []\<rparr>)
   \<and> NodePoolOptions (exampleConfig\<lparr>NodePoolOptions := Inr []\<rparr>) = Inr []
   \<and> parseWorkspaceSpec noPoolsEnv (Manifest exampleTemplate) = Inr exampleSpec
   \<and> generateWorkspaceTemplateWorkflowTemplate noPoolsEnv (Some exampleTemplate) =
         ([], Inl (Plain ''no node pool options in config''))"
proof -
  have 1: "Manifest exampleTemplate \<noteq> []" by (simp add: exampleTemplate_def)
  have 2: "GetSystemConfig noPoolsEnv = Inr (exampleConfig\<lparr>NodePoolOptions := Inr []\<rparr>)"
    by (simp add: noPoolsEnv_def exampleEnv_def)
  have 3: "NodePoolOptions (exampleConfig\<lparr>NodePoolOptions := Inr []\<rparr>) = Inr []" by simp
  have 4: "parseWorkspaceSpec noPoolsEnv (Manifest exampleTemplate) = Inr exampleSpec"
    by (simp add: noPoolsEnv_def exampleEnv_def)
  from empty_node_pools_fail_before_documents [OF 1 2 3 4] 1 2 3 4 show ?thesis by simp
qed

section \<open>Reading a template\<close>

lemma select_props:
  "(wt, wtv, wft, wftv) \<in> set (workspaceTemplateVersionsSelect w ns uid) \<Longrightarrow>
     wt \<in> set (workspace_templates w) \<and> wtv \<in> set (workspace_template_versions w)
     \<and> wtv_workspace_template_id wtv = wt_id wt \<and> wt_uid wt = uid \<and> wt_namespace wt = ns"
  by (auto simp: workspaceTemplateVersionsSelect_def split: if_splits)

lemma rows_props:
  assumes "(wt, wtv, wft, wftv) \<in> set (getWorkspaceTemplateRows w ns uid v)"
  shows "wt \<in> set (workspace_templates w) \<and> wtv \<in> set (workspace_template_versions w)
     \<and> wtv_workspace_template_id wtv = wt_id wt \<and> wt_uid wt = uid \<and> wt_namespace wt = ns
     \<and> \<not> wt_is_archived wt"
  using assms select_props [of wt wtv wft wftv w ns uid]
  by (auto simp: getWorkspaceTemplateRows_def)

lemma Get_Some:
  assumes "GetWorkspaceTemplate env w ns uid v = Inr (Some t)"
  shows "\<exists>wt wtv wft wftv. (wt, wtv, wft, wftv) \<in> set (getWorkspaceTemplateRows w ns uid v)
     \<and> ID t = wt_id wt \<and> UID t = wt_uid wt \<and> Namespace t = wt_namespace wt
     \<and> IsArchived t = wt_is_archived wt \<and> WorkspaceTemplateVersionID t = wtv_id wtv"
proof -
  from assms obtain row rest where rows: "getWorkspaceTemplateRows w ns uid v = row # rest"
    and t: "\<exists>x. t = (scanJoined row)\<lparr>WorkflowTemplate := x\<rparr>"
    by (auto simp: GetWorkspaceTemplate_def split: option.splits list.splits sum.splits)
  obtain wt wtv wft wftv where row: "row = (wt, wtv, wft, wftv)" by (cases row) auto
  from rows row have "(wt, wtv, wft, wftv) \<in> set (getWorkspaceTemplateRows w ns uid v)" by simp
  moreover from t row have "ID t = wt_id wt \<and> UID t = wt_uid wt \<and> Namespace t = wt_namespace wt
     \<and> IsArchived t = wt_is_archived wt \<and> WorkspaceTemplateVersionID t = wtv_id wtv"
    by (auto simp: scanJoined_def scanTemplate_def)
  ultimately show ?thesis by blast
qed

lemma GetWorkspaceTemplate_archived:
  assumes q: "queryErr env = None"
    and a: "\<forall>wt \<in> set (workspace_templates w).
           wt_uid wt = uid \<and> wt_namespace wt = ns \<longrightarrow> wt_is_archived wt"
  shows "GetWorkspaceTemplate env w ns uid v = Inr None"
proof -
  have "getWorkspaceTemplateRows w ns uid v = []"
  proof (rule ccontr)
    assume "getWorkspaceTemplateRows w ns uid v \<noteq> []"
    then obtain row rest where "getWorkspaceTemplateRows w ns uid v = row # rest"
      by (auto simp: neq_Nil_conv)
    then have "row \<in> set (getWorkspaceTemplateRows w ns uid v)" by simp
    moreover obtain wt wtv wft wftv where "row = (wt, wtv, wft, wftv)" by (cases row) auto
    ultimately have
      "(wt, wtv, wft, wftv) \<in> set (getWorkspaceTemplateRows w ns uid v)" by simp
    from rows_props [OF this] a show False by auto
  qed
  with q show ?thesis by (simp add: GetWorkspaceTemplate_def)
qed

text \<open>
  C10. \<open>GetWorkspaceTemplate\<close> returns no template and no error when the query
  matches no row; a template it returns is read from a row of \<open>workspace_templates\<close>
  with that uid and namespace whose \<open>is_archived\<close> is false, and its own flag is false;
  and when every row of the uid and namespace is archived it returns no template and no
  error for every version number, 0 or explicit. Absence is never an error of this
  function.
\<close>

theorem GetWorkspaceTemplate_absent_or_active:
  "(queryErr env = None \<longrightarrow> getWorkspaceTemplateRows w ns uid v = [] \<longrightarrow>
      GetWorkspaceTemplate env w ns uid v = Inr None)
   \<and> (GetWorkspaceTemplate env w ns uid v = Inr (Some t) \<longrightarrow>
        \<not> IsArchived t \<and>
        (\<exists>wt \<in> set (workspace_templates w).
           wt_id wt = ID t \<and> wt_uid wt = uid \<and> wt_namespace wt = ns \<and> \<not> wt_is_archived wt))
   \<and> (queryErr env = None \<longrightarrow>
        (\<forall>wt \<in> set (workspace_templates w).
           wt_uid wt = uid \<and> wt_namespace wt = ns \<longrightarrow> wt_is_archived wt) \<longrightarrow>
        GetWorkspaceTemplate env w ns uid v = Inr None)"
proof (intro conjI impI)
  assume "queryErr env = None" "getWorkspaceTemplateRows w ns uid v = []"
  then show "GetWorkspaceTemplate env w ns uid v = Inr None"
    by (simp add: GetWorkspaceTemplate_def)
next
  assume g: "GetWorkspaceTemplate env w ns uid v = Inr (Some t)"
  from Get_Some [OF g] obtain wt wtv wft wftv where
    r: "(wt, wtv, wft, wftv) \<in> set (getWorkspaceTemplateRows w ns uid v)"
    and t: "ID t = wt_id wt" "IsArchived t = wt_is_archived wt" by blast
  from rows_props [OF r] t show "\<not> IsArchived t" by simp
  from rows_props [OF r] t
  show "\<exists>wt \<in> set (workspace_templates w).
           wt_id wt = ID t \<and> wt_uid wt = uid \<and> wt_namespace wt = ns \<and> \<not> wt_is_archived wt"
    by auto
next
  assume "queryErr env = None"
    and "\<forall>wt \<in> set (workspace_templates w).
           wt_uid wt = uid \<and> wt_namespace wt = ns \<longrightarrow> wt_is_archived wt"
  then show "GetWorkspaceTemplate env w ns uid v = Inr None"
    by (rule GetWorkspaceTemplate_archived)
qed

section \<open>The single-latest invariant\<close>

lemma callArchive_sameStore:
  "callArchiveWorkflowTemplate env w ns uid = (r, w') \<Longrightarrow> sameStore w w'"
  by (auto simp: callArchiveWorkflowTemplate_def sameStore_def split: prod.splits)

lemma callArchive_calls:
  "callArchiveWorkflowTemplate env w ns uid = (r, w') \<Longrightarrow>
     calls w' = calls w @ [CallArchiveWorkflowTemplate ns uid]"
  by (auto simp: callArchiveWorkflowTemplate_def split: prod.splits)

lemma createWorkspaceTemplate_Inl:
  assumes "createWorkspaceTemplate env w ns wt = (w', Inl e)"
  shows "sameStore w w'"
  using assms
  unfolding createWorkspaceTemplate_def Let_def
  by (auto split: sum.splits option.splits prod.splits
      dest!: callArchive_sameStore simp: sameStore_def)

lemma createWorkspaceTemplate_Inr:
  assumes "createWorkspaceTemplate env w ns wt = (w', Inr t)"
  shows "\<exists>trow vrow.
     workspace_templates w' = workspace_templates w @ [trow]
     \<and> wt_id trow = next_template_id w \<and> \<not> wt_is_archived trow
     \<and> workspace_template_versions w' = workspace_template_versions w @ [vrow]
     \<and> wtv_id vrow = next_version_id w
     \<and> wtv_workspace_template_id vrow = next_template_id w
     \<and> wtv_is_latest vrow
     \<and> ID t = next_version_id w
     \<and> next_template_id w' = Suc (next_template_id w)
     \<and> next_version_id w' = Suc (next_version_id w)"
  using assms
  unfolding createWorkspaceTemplate_def Let_def
  by (auto split: sum.splits option.splits prod.splits
      simp: insertWorkspaceTemplate_def createWorkspaceTemplateVersionDB_def)

lemma CreateWorkspaceTemplate_Inl:
  assumes "CreateWorkspaceTemplate env w ns wt = (w', Inl e)"
  shows "sameStore w w'"
  using assms
  unfolding CreateWorkspaceTemplate_def Let_def
  by (auto split: sum.splits option.splits prod.splits
      dest!: createWorkspaceTemplate_Inl simp: sameStore_def)

lemma CreateWorkspaceTemplate_Inr:
  assumes "CreateWorkspaceTemplate env w ns wt = (w', Inr t)"
  shows "\<exists>t0. createWorkspaceTemplate env w ns t0 = (w', Inr t)"
  using assms
  unfolding CreateWorkspaceTemplate_def Let_def
  by (auto split: sum.splits option.splits prod.splits)

lemma createLatest_Inr:
  assumes "createLatestWorkspaceTemplateVersionDB env tx (Some t) = Inr (tx', t')"
  shows "1 \<le> ID t
     \<and> workspace_template_versions tx' =
         map (markOutdated (ID t)) (workspace_template_versions tx) @
           [\<lparr>wtv_id = next_version_id tx, wtv_workspace_template_id = ID t,
             wtv_version = Version t, wtv_is_latest = True, wtv_manifest = Manifest t,
             wtv_labels = Labels t, wtv_created_at = now env\<rparr>]
     \<and> workspace_templates tx' = workspace_templates tx
     \<and> next_template_id tx' = next_template_id tx
     \<and> next_version_id tx' = Suc (next_version_id tx)
     \<and> t' = t\<lparr>IsLatest := True, ID := next_version_id tx\<rparr>"
  using assms
  by (auto simp: createLatestWorkspaceTemplateVersionDB_def
      markWorkspaceTemplateVersionsOutdatedDB_def createWorkspaceTemplateVersionDB_def
      split: if_splits option.splits sum.splits)

lemma UpdateWorkspaceTemplate_Inl:
  assumes "UpdateWorkspaceTemplate env w ns wt = (w', Inl e)"
  shows "sameStore w w'"
  using assms
  unfolding UpdateWorkspaceTemplate_def Let_def
  by (auto split: sum.splits option.splits prod.splits simp: sameStore_def)

lemma UpdateWorkspaceTemplate_Inr:
  assumes "UpdateWorkspaceTemplate env w ns wt = (w', Inr t)"
  shows "\<exists>existing vrow.
     GetWorkspaceTemplate env w ns (UID wt) (Version wt) = Inr (Some existing)
     \<and> 1 \<le> ID existing
     \<and> workspace_template_versions w' =
         map (markOutdated (ID existing)) (workspace_template_versions w) @ [vrow]
     \<and> wtv_id vrow = next_version_id w
     \<and> wtv_workspace_template_id vrow = ID existing
     \<and> wtv_is_latest vrow
     \<and> ID t = next_version_id w
     \<and> map wt_id (workspace_templates w') = map wt_id (workspace_templates w)
     \<and> next_template_id w' = next_template_id w
     \<and> next_version_id w' = Suc (next_version_id w)"
  using assms
  unfolding UpdateWorkspaceTemplate_def Let_def
  by (auto split: sum.splits option.splits prod.splits dest!: createLatest_Inr
      simp: updateTemplateMetadata_def comp_def)

lemma no_latest_after_markOutdated:
  "filter (\<lambda>r. wtv_workspace_template_id r = j \<and> wtv_is_latest r) (map (markOutdated j) vs) = []"
proof (induction vs)
  case Nil
  show ?case by simp
next
  case (Cons v vs)
  have "\<not> (wtv_workspace_template_id (markOutdated j v) = j \<and> wtv_is_latest (markOutdated j v))"
    by (simp add: markOutdated_def)
  with Cons show ?case by simp
qed

lemma other_latest_after_markOutdated:
  assumes "i \<noteq> j"
  shows "length (filter (\<lambda>r. wtv_workspace_template_id r = i \<and> wtv_is_latest r)
                   (map (markOutdated j) vs)) =
         length (filter (\<lambda>r. wtv_workspace_template_id r = i \<and> wtv_is_latest r) vs)"
proof (induction vs)
  case Nil
  show ?case by simp
next
  case (Cons v vs)
  from assms have
    "(wtv_workspace_template_id (markOutdated j v) = i \<and> wtv_is_latest (markOutdated j v))
       = (wtv_workspace_template_id v = i \<and> wtv_is_latest v)"
    by (auto simp: markOutdated_def)
  with Cons show ?case by simp
qed

lemma markOutdated_template_id:
  "wtv_workspace_template_id (markOutdated j v) = wtv_workspace_template_id v"
  by (simp add: markOutdated_def)

lemma no_latest_of_unallocated:
  assumes "list_all (\<lambda>v. wtv_workspace_template_id v < n) vs"
  shows "filter (\<lambda>r. wtv_workspace_template_id r = n \<and> wtv_is_latest r) vs = []"
  using assms by (induction vs) auto

lemma sameStore_invariants:
  assumes "sameStore w w'"
  shows "singleLatest w' = singleLatest w" and "referencesAllocated w' = referencesAllocated w"
  using assms by (simp_all add: sameStore_def singleLatest_def latestCount_def referencesAllocated_def)

lemma create_preserves:
  assumes inv: "singleLatest w" "referencesAllocated w"
    and c: "createWorkspaceTemplate env w ns wt = (w', r)"
  shows "singleLatest w' \<and> referencesAllocated w'"
proof (cases r)
  case (Inl e)
  with c have "sameStore w w'" by (auto dest: createWorkspaceTemplate_Inl)
  with inv show ?thesis by (simp add: sameStore_invariants)
next
  case (Inr t)
  with c createWorkspaceTemplate_Inr [of env w ns wt w' t] obtain trow vrow where
    ts: "workspace_templates w' = workspace_templates w @ [trow]"
      "wt_id trow = next_template_id w"
    and vs: "workspace_template_versions w' = workspace_template_versions w @ [vrow]"
      "wtv_workspace_template_id vrow = next_template_id w"
    and n: "next_template_id w' = Suc (next_template_id w)"
    by auto
  from inv(2) have none: "filter (\<lambda>r. wtv_workspace_template_id r = next_template_id w \<and> wtv_is_latest r)
      (workspace_template_versions w) = []"
    by (simp add: referencesAllocated_def no_latest_of_unallocated)
  have "latestCount w' i \<le> 1" for i
  proof (cases "i = next_template_id w")
    case True
    with none vs show ?thesis by (simp add: latestCount_def)
  next
    case False
    with vs inv(1) show ?thesis by (simp add: latestCount_def singleLatest_def)
  qed
  then have "singleLatest w'" by (simp add: singleLatest_def)
  moreover from inv(2) ts vs n have "referencesAllocated w'"
    by (auto simp: referencesAllocated_def list_all_iff less_Suc_eq)
  ultimately show ?thesis by simp
qed

lemma Create_preserves:
  assumes inv: "singleLatest w" "referencesAllocated w"
    and c: "CreateWorkspaceTemplate env w ns wt = (w', r)"
  shows "singleLatest w' \<and> referencesAllocated w'"
proof (cases r)
  case (Inl e)
  with c have "sameStore w w'" by (auto dest: CreateWorkspaceTemplate_Inl)
  with inv show ?thesis by (simp add: sameStore_invariants)
next
  case (Inr t)
  with c CreateWorkspaceTemplate_Inr [of env w ns wt w' t] obtain t0 where
    "createWorkspaceTemplate env w ns t0 = (w', Inr t)" by auto
  from create_preserves [OF inv this] show ?thesis .
qed

lemma Get_allocated:
  assumes "referencesAllocated w"
    and "GetWorkspaceTemplate env w ns uid v = Inr (Some t)"
  shows "ID t < next_template_id w"
proof -
  from Get_Some [OF assms(2)] obtain wt wtv wft wftv where
    r: "(wt, wtv, wft, wftv) \<in> set (getWorkspaceTemplateRows w ns uid v)"
    and t: "ID t = wt_id wt" by blast
  from rows_props [OF r] have "wt \<in> set (workspace_templates w)" by simp
  with assms(1) t show ?thesis by (auto simp: referencesAllocated_def list_all_iff)
qed

lemma Update_preserves:
  assumes inv: "singleLatest w" "referencesAllocated w"
    and u: "UpdateWorkspaceTemplate env w ns wt = (w', r)"
  shows "singleLatest w' \<and> referencesAllocated w'"
proof (cases r)
  case (Inl e)
  with u have "sameStore w w'" by (auto dest: UpdateWorkspaceTemplate_Inl)
  with inv show ?thesis by (simp add: sameStore_invariants)
next
  case (Inr t)
  with u UpdateWorkspaceTemplate_Inr [of env w ns wt w' t] obtain existing vrow where
    g: "GetWorkspaceTemplate env w ns (UID wt) (Version wt) = Inr (Some existing)"
    and vs: "workspace_template_versions w' =
         map (markOutdated (ID existing)) (workspace_template_versions w) @ [vrow]"
      "wtv_workspace_template_id vrow = ID existing"
    and ts: "map wt_id (workspace_templates w') = map wt_id (workspace_templates w)"
    and n: "next_template_id w' = next_template_id w"
    by auto
  have "latestCount w' i \<le> 1" for i
  proof (cases "i = ID existing")
    case True
    with vs show ?thesis
      by (simp add: latestCount_def no_latest_after_markOutdated)
  next
    case False
    with vs inv(1) show ?thesis
      by (simp add: latestCount_def singleLatest_def other_latest_after_markOutdated
          del: length_filter_map)
  qed
  then have "singleLatest w'" by (simp add: singleLatest_def)
  moreover have "referencesAllocated w'"
  proof -
    from inv(2) have "list_all (\<lambda>i. i < next_template_id w) (map wt_id (workspace_templates w))"
      by (simp add: referencesAllocated_def list_all_iff)
    with ts n have "list_all (\<lambda>r. wt_id r < next_template_id w') (workspace_templates w')"
      by (metis (mono_tags, lifting) list.pred_map comp_def list.pred_mono_strong)
    moreover from inv(2) vs n Get_allocated [OF inv(2) g]
    have "list_all (\<lambda>v. wtv_workspace_template_id v < next_template_id w')
            (workspace_template_versions w')"
      by (auto simp: referencesAllocated_def list_all_iff markOutdated_template_id)
    ultimately show ?thesis by (simp add: referencesAllocated_def)
  qed
  ultimately show ?thesis by simp
qed

lemma archiveWorkspaces_sameStore:
  "archiveWorkspaces env w ns l = (w', r) \<Longrightarrow> sameStore w w'"
proof (induction l arbitrary: w)
  case Nil
  then show ?case by (simp add: sameStore_def)
next
  case (Cons u l)
  show ?case
  proof (cases "ArchiveWorkspace env ns u")
    case None
    with Cons.prems have
      "archiveWorkspaces env (w\<lparr>calls := calls w @ [CallArchiveWorkspace ns u]\<rparr>) ns l = (w', r)"
      by (simp add: Let_def)
    from Cons.IH [OF this] show ?thesis by (simp add: sameStore_def)
  next
    case (Some e)
    with Cons.prems show ?thesis by (auto simp: Let_def sameStore_def)
  qed
qed

lemma archiveDB_store:
  assumes "archiveWorkspaceTemplateDB env w ns uid = (w', r)"
  shows "workspace_template_versions w' = workspace_template_versions w
     \<and> next_template_id w' = next_template_id w
     \<and> next_version_id w' = next_version_id w
     \<and> map wt_id (workspace_templates w') = map wt_id (workspace_templates w)"
  using assms
  by (auto simp: archiveWorkspaceTemplateDB_def Let_def comp_def
      split: option.splits if_splits)

lemma archiveDB_archived:
  assumes "archiveWorkspaceTemplateDB env w ns uid = (w', Inr b)"
  shows "workspace_templates w' =
     map (\<lambda>r. if archiveRow ns uid r then r\<lparr>wt_is_archived := True\<rparr> else r) (workspace_templates w)"
  using assms
  by (auto simp: archiveWorkspaceTemplateDB_def Let_def split: option.splits if_splits)

lemma sameStore_ids:
  assumes "sameStore w w'"
  shows "workspace_template_versions w' = workspace_template_versions w
     \<and> next_template_id w' = next_template_id w
     \<and> next_version_id w' = next_version_id w
     \<and> map wt_id (workspace_templates w') = map wt_id (workspace_templates w)"
  using assms by (simp add: sameStore_def)

lemma Archive_world:
  assumes "ArchiveWorkspaceTemplate env w ns uid = (w', r)"
  shows "w' = w
     \<or> (\<exists>l x. archiveWorkspaces env w ns l = (w', x))
     \<or> (\<exists>l w1 x u y. archiveWorkspaces env w ns l = (w1, x)
            \<and> archiveWorkspaceTemplateDB env w1 ns u = (w', y))
     \<or> (\<exists>l w1 x u w2 y z. archiveWorkspaces env w ns l = (w1, x)
            \<and> archiveWorkspaceTemplateDB env w1 ns u = (w2, y)
            \<and> callArchiveWorkflowTemplate env w2 ns u = (z, w'))"
proof (cases "GetWorkspaceTemplate env w ns uid 0")
  case (Inl e)
  with assms show ?thesis by (simp add: ArchiveWorkspaceTemplate_def)
next
  case (Inr found)
  show ?thesis
  proof (cases found)
    case None
    with Inr assms show ?thesis by (simp add: ArchiveWorkspaceTemplate_def)
  next
    case (Some wsTemp)
    show ?thesis
    proof (cases "ListWorkspacesByTemplateID env ns (WorkspaceTemplateVersionID wsTemp)")
      case (Inl e)
      with Inr Some assms show ?thesis by (simp add: ArchiveWorkspaceTemplate_def)
    next
      case l: (Inr wsList)
      obtain w1 x where a1: "archiveWorkspaces env w ns wsList = (w1, x)"
        by (cases "archiveWorkspaces env w ns wsList") auto
      show ?thesis
      proof (cases x)
        case (Some e)
        with Inr \<open>found = Some wsTemp\<close> l a1 assms have "w' = w1"
          by (simp add: ArchiveWorkspaceTemplate_def)
        with a1 show ?thesis by blast
      next
        case None
        obtain w2 y where a2: "archiveWorkspaceTemplateDB env w1 ns (UID wsTemp) = (w2, y)"
          by (cases "archiveWorkspaceTemplateDB env w1 ns (UID wsTemp)") auto
        show ?thesis
        proof (cases y)
          case (Inl e)
          with Inr \<open>found = Some wsTemp\<close> l a1 None a2 assms have "w' = w2"
            by (simp add: ArchiveWorkspaceTemplate_def)
          with a1 a2 show ?thesis by blast
        next
          case (Inr b)
          obtain z w3 where a3: "callArchiveWorkflowTemplate env w2 ns (UID wsTemp) = (z, w3)"
            by (cases "callArchiveWorkflowTemplate env w2 ns (UID wsTemp)") auto
          with \<open>GetWorkspaceTemplate env w ns uid 0 = Inr found\<close> \<open>found = Some wsTemp\<close>
            l a1 None a2 Inr assms
          have "w' = w3"
            by (cases z) (simp_all add: ArchiveWorkspaceTemplate_def)
          with a1 a2 a3 show ?thesis by blast
        qed
      qed
    qed
  qed
qed

lemma Archive_store:
  assumes "ArchiveWorkspaceTemplate env w ns uid = (w', r)"
  shows "workspace_template_versions w' = workspace_template_versions w
     \<and> next_template_id w' = next_template_id w
     \<and> next_version_id w' = next_version_id w
     \<and> map wt_id (workspace_templates w') = map wt_id (workspace_templates w)"
proof -
  from Archive_world [OF assms] consider
    (same) "w' = w"
  | (ws) wsList x where "archiveWorkspaces env w ns wsList = (w', x)"
  | (db) wsList w1 x u y where "archiveWorkspaces env w ns wsList = (w1, x)"
      "archiveWorkspaceTemplateDB env w1 ns u = (w', y)"
  | (wf) wsList w1 x u w2 y z where "archiveWorkspaces env w ns wsList = (w1, x)"
      "archiveWorkspaceTemplateDB env w1 ns u = (w2, y)"
      "callArchiveWorkflowTemplate env w2 ns u = (z, w')"
    by blast
  then show ?thesis
  proof cases
    case same
    then show ?thesis by simp
  next
    case ws
    from sameStore_ids [OF archiveWorkspaces_sameStore [OF ws]] show ?thesis .
  next
    case db
    from sameStore_ids [OF archiveWorkspaces_sameStore [OF db(1)]] archiveDB_store [OF db(2)]
    show ?thesis by simp
  next
    case wf
    from sameStore_ids [OF archiveWorkspaces_sameStore [OF wf(1)]] archiveDB_store [OF wf(2)]
      sameStore_ids [OF callArchive_sameStore [OF wf(3)]]
    show ?thesis by simp
  qed
qed

lemma ids_invariants:
  assumes "workspace_template_versions w' = workspace_template_versions w"
    and "next_template_id w' = next_template_id w"
    and "map wt_id (workspace_templates w') = map wt_id (workspace_templates w)"
  shows "singleLatest w' = singleLatest w" and "referencesAllocated w' = referencesAllocated w"
proof -
  show "singleLatest w' = singleLatest w"
    using assms by (simp add: singleLatest_def latestCount_def)
  from assms(3) have ids: "wt_id ` set (workspace_templates w') = wt_id ` set (workspace_templates w)"
    by (metis set_map)
  have "(\<forall>r\<in>set (workspace_templates w'). wt_id r < next_template_id w)
      = (\<forall>i\<in>wt_id ` set (workspace_templates w'). i < next_template_id w)"
    by blast
  also have "\<dots> = (\<forall>r\<in>set (workspace_templates w). wt_id r < next_template_id w)"
    unfolding ids by blast
  finally show "referencesAllocated w' = referencesAllocated w"
    using assms(1,2) by (simp add: referencesAllocated_def list_all_iff)
qed

lemma reachable_invariants:
  assumes "reachable w"
  shows "singleLatest w \<and> referencesAllocated w"
  using assms
proof (induction rule: reachable.induct)
  case (reachable_empty tables)
  show ?case
    by (simp add: emptyWorld_def singleLatest_def latestCount_def referencesAllocated_def)
next
  case (reachable_create w env namespace t)
  obtain w' r where c: "CreateWorkspaceTemplate env w namespace t = (w', r)"
    by (cases "CreateWorkspaceTemplate env w namespace t") auto
  from reachable_create.IH Create_preserves [OF _ _ c] c show ?case by simp
next
  case (reachable_update w env namespace t)
  obtain w' r where u: "UpdateWorkspaceTemplate env w namespace t = (w', r)"
    by (cases "UpdateWorkspaceTemplate env w namespace t") auto
  from reachable_update.IH Update_preserves [OF _ _ u] u show ?case by simp
next
  case (reachable_archive w env namespace uid)
  obtain w' r where a: "ArchiveWorkspaceTemplate env w namespace uid = (w', r)"
    by (cases "ArchiveWorkspaceTemplate env w namespace uid") auto
  from Archive_store [OF a] have
    "workspace_template_versions w' = workspace_template_versions w"
    "next_template_id w' = next_template_id w"
    "map wt_id (workspace_templates w') = map wt_id (workspace_templates w)"
    by simp_all
  from ids_invariants [OF this] reachable_archive.IH a show ?case by simp
next
  case (reachable_collaborator w tables)
  then show ?case
    by (simp add: singleLatest_def latestCount_def referencesAllocated_def)
qed

text \<open>
  C1. In every state the store can reach, so after any create or update (and archive)
  that has run to its end, committed or rolled back, no template has more than one version
  row flagged latest. An update that succeeds has, in its transaction, cleared the flag on
  the rows of the template it read and appended one row for that template with the flag
  set, which leaves that template with exactly one latest row; an update that fails leaves
  the version rows as they were.
\<close>

theorem single_latest_invariant:
  assumes "reachable w"
  shows "(\<forall>workspaceTemplateID. latestCount w workspaceTemplateID \<le> 1)
     \<and> (\<forall>w' t. UpdateWorkspaceTemplate env w namespace workspaceTemplate = (w', Inr t) \<longrightarrow>
          (\<exists>existing vrow.
             GetWorkspaceTemplate env w namespace (UID workspaceTemplate) (Version workspaceTemplate)
               = Inr (Some existing)
             \<and> workspace_template_versions w' =
                 map (markOutdated (ID existing)) (workspace_template_versions w) @ [vrow]
             \<and> wtv_workspace_template_id vrow = ID existing
             \<and> wtv_is_latest vrow
             \<and> latestCount w' (ID existing) = 1))
     \<and> (\<forall>w' e. UpdateWorkspaceTemplate env w namespace workspaceTemplate = (w', Inl e) \<longrightarrow>
          workspace_template_versions w' = workspace_template_versions w)"
proof (intro conjI allI impI)
  fix i
  from reachable_invariants [OF assms] show "latestCount w i \<le> 1"
    by (simp add: singleLatest_def)
next
  fix w' t
  assume u: "UpdateWorkspaceTemplate env w namespace workspaceTemplate = (w', Inr t)"
  from UpdateWorkspaceTemplate_Inr [OF u] obtain existing vrow where
    g: "GetWorkspaceTemplate env w namespace (UID workspaceTemplate) (Version workspaceTemplate)
          = Inr (Some existing)"
    and vs: "workspace_template_versions w' =
               map (markOutdated (ID existing)) (workspace_template_versions w) @ [vrow]"
    and v: "wtv_workspace_template_id vrow = ID existing" "wtv_is_latest vrow"
    by blast
  from vs v have "latestCount w' (ID existing) = 1"
    by (simp add: latestCount_def no_latest_after_markOutdated)
  with g vs v show "\<exists>existing vrow.
             GetWorkspaceTemplate env w namespace (UID workspaceTemplate) (Version workspaceTemplate)
               = Inr (Some existing)
             \<and> workspace_template_versions w' =
                 map (markOutdated (ID existing)) (workspace_template_versions w) @ [vrow]
             \<and> wtv_workspace_template_id vrow = ID existing
             \<and> wtv_is_latest vrow
             \<and> latestCount w' (ID existing) = 1"
    by blast
next
  fix w' e
  assume "UpdateWorkspaceTemplate env w namespace workspaceTemplate = (w', Inl e)"
  from UpdateWorkspaceTemplate_Inl [OF this]
  show "workspace_template_versions w' = workspace_template_versions w"
    by (simp add: sameStore_def)
qed

section \<open>The operations on the example history\<close>

lemmas store_defs =
  CreateWorkspaceTemplate_def createWorkspaceTemplate_def getWorkspaceTemplateByName_def
  insertWorkspaceTemplate_def createWorkspaceTemplateVersionDB_def
  createLatestWorkspaceTemplateVersionDB_def markWorkspaceTemplateVersionsOutdatedDB_def
  markOutdated_def callArchiveWorkflowTemplate_def UpdateWorkspaceTemplate_def
  GetWorkspaceTemplate_def getWorkspaceTemplateRows_def workspaceTemplateVersionsSelect_def
  scanJoined_def scanTemplate_def updateTemplateMetadata_def ArchiveWorkspaceTemplate_def
  archiveWorkspaceTemplateDB_def archiveRow_def alreadyExistsMessage_def
  rewriteInvalidArgument_def emptyWorkflowTemplate_def cleanUpMessage_def unableToArchive_def

lemmas example_defs =
  exampleEnv_def exampleTemplate_def exampleSpec_def exampleConfig_def dataMount_def
  registerWorkflowTemplate_def registerWorkflowTemplateVersion_def updateRequest_def emptyWorld_def

lemmas eval_defs = store_defs example_defs pipeline_defs generateArguments_defs Let_def

lemma createdWorld_eq:
  "createdWorld =
     \<lparr>workspace_templates =
        [\<lparr>wt_id = 1, wt_uid = ''ml-1'', wt_name = ''ml-1'', wt_namespace = ''team-a'',
          wt_description = ''notebooks'', wt_is_archived = False, wt_workflow_template_id = 1,
          wt_labels = [], wt_created_at = 30\<rparr>],
      workspace_template_versions =
        [\<lparr>wtv_id = 1, wtv_workspace_template_id = 1, wtv_version = 1, wtv_is_latest = True,
          wtv_manifest = ''containers: ...'', wtv_labels = [], wtv_created_at = 30\<rparr>],
      next_template_id = 2,
      next_version_id = 2,
      workflow =
        \<lparr>workflow_templates = [\<lparr>wft_id = 1, wft_uid = ''ml-1'', wft_is_archived = False\<rparr>],
         workflow_template_versions =
           [\<lparr>wftv_workflow_template_id = 1, wftv_version = 1, wftv_is_latest = True,
             wftv_manifest = ''yaml''\<rparr>]\<rparr>,
      calls = [CallCreateWorkflowTemplate ''team-a'' ''ml-1'']\<rparr>"
  by (simp add: createdWorld_def store_defs example_defs pipeline_defs generateArguments_defs
      Let_def)

lemma update_createdWorld:
  "UpdateWorkspaceTemplate exampleEnv createdWorld ''team-a'' updateRequest =
     (createdWorld
        \<lparr>workspace_template_versions :=
           [\<lparr>wtv_id = 1, wtv_workspace_template_id = 1, wtv_version = 1, wtv_is_latest = False,
             wtv_manifest = ''containers: ...'', wtv_labels = [], wtv_created_at = 30\<rparr>,
            \<lparr>wtv_id = 2, wtv_workspace_template_id = 1, wtv_version = 2, wtv_is_latest = True,
             wtv_manifest = ''containers: ...'', wtv_labels = [], wtv_created_at = 30\<rparr>],
         next_version_id := 3,
         workflow :=
           \<lparr>workflow_templates = [\<lparr>wft_id = 1, wft_uid = ''ml-1'', wft_is_archived = False\<rparr>],
            workflow_template_versions =
              [\<lparr>wftv_workflow_template_id = 1, wftv_version = 1, wftv_is_latest = False,
                wftv_manifest = ''yaml''\<rparr>,
               \<lparr>wftv_workflow_template_id = 1, wftv_version = 2, wftv_is_latest = True,
                wftv_manifest = ''yaml''\<rparr>]\<rparr>,
         calls := [CallCreateWorkflowTemplate ''team-a'' ''ml-1'',
                   CallCreateWorkflowTemplateVersion ''team-a'' ''ml-1'']\<rparr>,
      Inr (updateRequest\<lparr>ID := 2, Namespace := ''team-a'', Version := 2, IsLatest := True\<rparr>))"
  unfolding createdWorld_eq
  by (simp add: eval_defs)

lemma updatedWorld_eq:
  "updatedWorld =
     \<lparr>workspace_templates =
        [\<lparr>wt_id = 1, wt_uid = ''ml-1'', wt_name = ''ml-1'', wt_namespace = ''team-a'',
          wt_description = ''notebooks'', wt_is_archived = False, wt_workflow_template_id = 1,
          wt_labels = [], wt_created_at = 30\<rparr>],
      workspace_template_versions =
        [\<lparr>wtv_id = 1, wtv_workspace_template_id = 1, wtv_version = 1, wtv_is_latest = False,
          wtv_manifest = ''containers: ...'', wtv_labels = [], wtv_created_at = 30\<rparr>,
         \<lparr>wtv_id = 2, wtv_workspace_template_id = 1, wtv_version = 2, wtv_is_latest = True,
          wtv_manifest = ''containers: ...'', wtv_labels = [], wtv_created_at = 30\<rparr>],
      next_template_id = 2,
      next_version_id = 3,
      workflow =
        \<lparr>workflow_templates = [\<lparr>wft_id = 1, wft_uid = ''ml-1'', wft_is_archived = False\<rparr>],
         workflow_template_versions =
           [\<lparr>wftv_workflow_template_id = 1, wftv_version = 1, wftv_is_latest = False,
             wftv_manifest = ''yaml''\<rparr>,
            \<lparr>wftv_workflow_template_id = 1, wftv_version = 2, wftv_is_latest = True,
             wftv_manifest = ''yaml''\<rparr>]\<rparr>,
      calls = [CallCreateWorkflowTemplate ''team-a'' ''ml-1'',
               CallCreateWorkflowTemplateVersion ''team-a'' ''ml-1'']\<rparr>"
  by (simp add: updatedWorld_def update_createdWorld) (simp add: createdWorld_eq)

lemma archive_updatedWorld:
  "ArchiveWorkspaceTemplate exampleEnv updatedWorld ''team-a'' ''ml-1'' =
     (updatedWorld
        \<lparr>workspace_templates :=
           [\<lparr>wt_id = 1, wt_uid = ''ml-1'', wt_name = ''ml-1'', wt_namespace = ''team-a'',
             wt_description = ''notebooks'', wt_is_archived = True, wt_workflow_template_id = 1,
             wt_labels = [], wt_created_at = 30\<rparr>],
         calls := [CallCreateWorkflowTemplate ''team-a'' ''ml-1'',
                   CallCreateWorkflowTemplateVersion ''team-a'' ''ml-1'',
                   CallArchiveWorkflowTemplate ''team-a'' ''ml-1'']\<rparr>,
      Inr True)"
  unfolding updatedWorld_eq by (simp add: eval_defs)

lemma retiredWorld_eq:
  "retiredWorld =
     updatedWorld
        \<lparr>workspace_templates :=
           [\<lparr>wt_id = 1, wt_uid = ''ml-1'', wt_name = ''ml-1'', wt_namespace = ''team-a'',
             wt_description = ''notebooks'', wt_is_archived = True, wt_workflow_template_id = 1,
             wt_labels = [], wt_created_at = 30\<rparr>],
         calls := [CallCreateWorkflowTemplate ''team-a'' ''ml-1'',
                   CallCreateWorkflowTemplateVersion ''team-a'' ''ml-1'',
                   CallArchiveWorkflowTemplate ''team-a'' ''ml-1'']\<rparr>"
  by (simp add: retiredWorld_def archive_updatedWorld)

lemma archive_retiredWorld:
  "ArchiveWorkspaceTemplate exampleEnv retiredWorld ''team-a'' ''ml-1'' =
     (retiredWorld, Inl (Plain ''not found''))"
  unfolding retiredWorld_eq updatedWorld_eq by (simp add: eval_defs)

text \<open>
  C1 on the example history: the store after the create is reachable; after the update
  version 1 is no longer latest and version 2 is, so template 1 has one latest row.
\<close>

theorem single_latest_invariant_witness:
  "reachable createdWorld
   \<and> latestCount createdWorld 1 \<le> 1
   \<and> map (\<lambda>v. (wtv_version v, wtv_is_latest v))
        (workspace_template_versions
           (fst (UpdateWorkspaceTemplate exampleEnv createdWorld ''team-a'' updateRequest)))
       = [(1, False), (2, True)]
   \<and> latestCount (fst (UpdateWorkspaceTemplate exampleEnv createdWorld ''team-a'' updateRequest)) 1 = 1"
proof -
  have r: "reachable createdWorld"
    unfolding createdWorld_def by (intro reachable.intros)
  note inv = single_latest_invariant [OF r, of exampleEnv "''team-a''" updateRequest]
  from inv have "latestCount createdWorld 1 \<le> 1" by blast
  moreover
  obtain existing vrow where
    "GetWorkspaceTemplate exampleEnv createdWorld ''team-a'' (UID updateRequest) (Version updateRequest)
       = Inr (Some existing)"
    "latestCount (fst (UpdateWorkspaceTemplate exampleEnv createdWorld ''team-a'' updateRequest))
       (ID existing) = 1"
    using inv update_createdWorld by (metis fst_conv)
  moreover have
    "GetWorkspaceTemplate exampleEnv createdWorld ''team-a'' (UID updateRequest) (Version updateRequest)
       = Inr (Some (scanJoined
           (hd (getWorkspaceTemplateRows createdWorld ''team-a'' ''ml-1'' 0))))"
    unfolding createdWorld_eq by (simp add: eval_defs)
  moreover have
    "ID (scanJoined (hd (getWorkspaceTemplateRows createdWorld ''team-a'' ''ml-1'' 0))) = 1"
    unfolding createdWorld_eq by (simp add: eval_defs)
  ultimately have
    "latestCount (fst (UpdateWorkspaceTemplate exampleEnv createdWorld ''team-a'' updateRequest)) 1 = 1"
    by simp
  moreover have "map (\<lambda>v. (wtv_version v, wtv_is_latest v))
        (workspace_template_versions
           (fst (UpdateWorkspaceTemplate exampleEnv createdWorld ''team-a'' updateRequest)))
       = [(1, False), (2, True)]"
    by (simp add: update_createdWorld)
  ultimately show ?thesis using r \<open>latestCount createdWorld 1 \<le> 1\<close> by simp
qed

section \<open>The id a create or an update returns\<close>

text \<open>
  C9. The template a successful create returns carries, as its \<open>ID\<close>, the id of the
  version row the create inserted, which is the next value of the version sequence; the
  template row it inserted has the next value of the template sequence, and the version
  row refers to it. The template a successful update returns carries the id of the new
  version row as well, while that row refers to the id of the template that was read.
\<close>

theorem returned_id_is_version_row_id:
  "(CreateWorkspaceTemplate env w namespace workspaceTemplate = (w', Inr t) \<longrightarrow>
      (\<exists>trow vrow.
         workspace_templates w' = workspace_templates w @ [trow]
         \<and> workspace_template_versions w' = workspace_template_versions w @ [vrow]
         \<and> wt_id trow = next_template_id w
         \<and> wtv_workspace_template_id vrow = wt_id trow
         \<and> wtv_id vrow = next_version_id w
         \<and> ID t = wtv_id vrow))
   \<and> (UpdateWorkspaceTemplate env w namespace workspaceTemplate = (w', Inr t) \<longrightarrow>
      (\<exists>existing vrow.
         GetWorkspaceTemplate env w namespace (UID workspaceTemplate) (Version workspaceTemplate)
           = Inr (Some existing)
         \<and> workspace_template_versions w' =
             map (markOutdated (ID existing)) (workspace_template_versions w) @ [vrow]
         \<and> wtv_workspace_template_id vrow = ID existing
         \<and> wtv_id vrow = next_version_id w
         \<and> ID t = wtv_id vrow))"
proof (intro conjI impI)
  assume "CreateWorkspaceTemplate env w namespace workspaceTemplate = (w', Inr t)"
  from CreateWorkspaceTemplate_Inr [OF this] obtain t0 where
    "createWorkspaceTemplate env w namespace t0 = (w', Inr t)" by blast
  from createWorkspaceTemplate_Inr [OF this] obtain trow vrow where
    "workspace_templates w' = workspace_templates w @ [trow]"
    "wt_id trow = next_template_id w"
    "workspace_template_versions w' = workspace_template_versions w @ [vrow]"
    "wtv_id vrow = next_version_id w"
    "wtv_workspace_template_id vrow = next_template_id w"
    "ID t = next_version_id w"
    by blast
  then have "workspace_templates w' = workspace_templates w @ [trow]
         \<and> workspace_template_versions w' = workspace_template_versions w @ [vrow]
         \<and> wt_id trow = next_template_id w
         \<and> wtv_workspace_template_id vrow = wt_id trow
         \<and> wtv_id vrow = next_version_id w
         \<and> ID t = wtv_id vrow" by simp
  then show "\<exists>trow vrow.
         workspace_templates w' = workspace_templates w @ [trow]
         \<and> workspace_template_versions w' = workspace_template_versions w @ [vrow]
         \<and> wt_id trow = next_template_id w
         \<and> wtv_workspace_template_id vrow = wt_id trow
         \<and> wtv_id vrow = next_version_id w
         \<and> ID t = wtv_id vrow" by blast
next
  assume "UpdateWorkspaceTemplate env w namespace workspaceTemplate = (w', Inr t)"
  from UpdateWorkspaceTemplate_Inr [OF this] obtain existing vrow where
    "GetWorkspaceTemplate env w namespace (UID workspaceTemplate) (Version workspaceTemplate)
           = Inr (Some existing)"
    "workspace_template_versions w' =
             map (markOutdated (ID existing)) (workspace_template_versions w) @ [vrow]"
    "wtv_workspace_template_id vrow = ID existing"
    "wtv_id vrow = next_version_id w"
    "ID t = next_version_id w"
    by blast
  then have "GetWorkspaceTemplate env w namespace (UID workspaceTemplate) (Version workspaceTemplate)
           = Inr (Some existing)
         \<and> workspace_template_versions w' =
             map (markOutdated (ID existing)) (workspace_template_versions w) @ [vrow]
         \<and> wtv_workspace_template_id vrow = ID existing
         \<and> wtv_id vrow = next_version_id w
         \<and> ID t = wtv_id vrow" by simp
  then show "\<exists>existing vrow.
         GetWorkspaceTemplate env w namespace (UID workspaceTemplate) (Version workspaceTemplate)
           = Inr (Some existing)
         \<and> workspace_template_versions w' =
             map (markOutdated (ID existing)) (workspace_template_versions w) @ [vrow]
         \<and> wtv_workspace_template_id vrow = ID existing
         \<and> wtv_id vrow = next_version_id w
         \<and> ID t = wtv_id vrow" by blast
qed

text \<open>
  C9 on the example history: creating \<open>ml-2\<close> after the update returns the id 3, the
  id of the third version row, while the template row has the id 2; the update of
  \<open>ml-1\<close> returned the id 2 for the template with the id 1.
\<close>

theorem returned_id_is_version_row_id_witness:
  "map_sum id ID (snd (CreateWorkspaceTemplate exampleEnv updatedWorld ''team-a'' secondTemplate)) = Inr 3
   \<and> map wt_id (workspace_templates
        (fst (CreateWorkspaceTemplate exampleEnv updatedWorld ''team-a'' secondTemplate))) = [1, 2]
   \<and> map_sum id ID (snd (UpdateWorkspaceTemplate exampleEnv createdWorld ''team-a'' updateRequest)) = Inr 2
   \<and> map wt_id (workspace_templates createdWorld) = [1]"
proof -
  let ?c = "CreateWorkspaceTemplate exampleEnv updatedWorld ''team-a'' secondTemplate"
  have "snd ?c = Inr (projr (snd ?c))"
    unfolding updatedWorld_eq by (simp add: eval_defs secondTemplate_def)
  then have c: "?c = (fst ?c, Inr (projr (snd ?c)))"
    by (metis prod.collapse)
  from returned_id_is_version_row_id [THEN conjunct1, THEN mp, OF c]
  have "ID (projr (snd ?c)) = next_version_id updatedWorld" by auto
  then have "ID (projr (snd ?c)) = 3" by (simp add: updatedWorld_eq)
  with c have 1: "map_sum id ID (snd ?c) = Inr 3"
    by (metis map_sum.simps(2) snd_conv)
  have 2: "map wt_id (workspace_templates (fst ?c)) = [1, 2]"
    unfolding updatedWorld_eq by (simp add: eval_defs secondTemplate_def)
  have 3: "map_sum id ID (snd (UpdateWorkspaceTemplate exampleEnv createdWorld ''team-a'' updateRequest))
      = Inr 2"
    by (simp add: update_createdWorld)
  have 4: "map wt_id (workspace_templates createdWorld) = [1]"
    by (simp add: createdWorld_eq)
  from 1 2 3 4 show ?thesis by (intro conjI)
qed

section \<open>Compensation on the create path\<close>










section \<open>Archiving a template\<close>

lemma Archive_Inr:
  assumes "ArchiveWorkspaceTemplate env w ns uid = (w', Inr b)"
  shows "b \<and> (\<exists>wsTemp wsList w1 w2 y z.
           GetWorkspaceTemplate env w ns uid 0 = Inr (Some wsTemp)
           \<and> archiveWorkspaces env w ns wsList = (w1, None)
           \<and> archiveWorkspaceTemplateDB env w1 ns (UID wsTemp) = (w2, Inr y)
           \<and> callArchiveWorkflowTemplate env w2 ns (UID wsTemp) = (Inr z, w'))"
  using assms
  unfolding ArchiveWorkspaceTemplate_def
  by (auto split: sum.splits option.splits prod.splits)

lemma archived_after_update:
  assumes "r \<in> set (map (\<lambda>r. if archiveRow ns uid r then r\<lparr>wt_is_archived := True\<rparr> else r) ts)"
    and "wt_uid r = uid" and "wt_namespace r = ns"
  shows "wt_is_archived r"
proof -
  from assms(1) have
    "r \<in> (\<lambda>r. if archiveRow ns uid r then r\<lparr>wt_is_archived := True\<rparr> else r) ` set ts"
    by (simp only: set_map)
  then obtain x where
    x: "r = (if archiveRow ns uid x then x\<lparr>wt_is_archived := True\<rparr> else x)"
    by (rule imageE)
  show ?thesis
  proof (cases "archiveRow ns uid x")
    case True
    with x show ?thesis by simp
  next
    case False
    with x have "r = x" by simp
    with False assms(2,3) show ?thesis unfolding archiveRow_def by blast
  qed
qed

text \<open>
  C2, as stated, fails. On the example history the first archive of \<open>ml-1\<close> returns
  true; the second, on the template that is now archived, returns the error
  \<open>not found\<close> and not a no-op result.
\<close>

theorem archive_twice_counterexample:
  "snd (ArchiveWorkspaceTemplate exampleEnv updatedWorld ''team-a'' ''ml-1'') = Inr True
   \<and> ArchiveWorkspaceTemplate exampleEnv
        (fst (ArchiveWorkspaceTemplate exampleEnv updatedWorld ''team-a'' ''ml-1'')) ''team-a'' ''ml-1''
      = (fst (ArchiveWorkspaceTemplate exampleEnv updatedWorld ''team-a'' ''ml-1''),
         Inl (Plain ''not found''))"
  using archive_retiredWorld by (simp add: retiredWorld_def archive_updatedWorld)

text \<open>
  C2, amended. When every row of the template is archived (or there is none) and the
  query runs, \<open>ArchiveWorkspaceTemplate\<close> returns the error \<open>not found\<close> and
  changes nothing. When it returns without an error, it returns true, a row of the
  template was not archived before, and every row of the template is archived after: true
  reports a transition that took place.
\<close>

theorem archive_transition:
  "(queryErr env = None \<longrightarrow>
      (\<forall>wt \<in> set (workspace_templates w).
         wt_uid wt = uid \<and> wt_namespace wt = namespace \<longrightarrow> wt_is_archived wt) \<longrightarrow>
      ArchiveWorkspaceTemplate env w namespace uid = (w, Inl (Plain ''not found'')))
   \<and> (ArchiveWorkspaceTemplate env w namespace uid = (w', Inr archived) \<longrightarrow>
        archived
        \<and> (\<exists>wt \<in> set (workspace_templates w).
              wt_uid wt = uid \<and> wt_namespace wt = namespace \<and> \<not> wt_is_archived wt)
        \<and> (\<forall>wt \<in> set (workspace_templates w').
              wt_uid wt = uid \<and> wt_namespace wt = namespace \<longrightarrow> wt_is_archived wt))"
proof (intro conjI impI)
  assume "queryErr env = None"
    and "\<forall>wt \<in> set (workspace_templates w).
         wt_uid wt = uid \<and> wt_namespace wt = namespace \<longrightarrow> wt_is_archived wt"
  then have "GetWorkspaceTemplate env w namespace uid 0 = Inr None"
    by (rule GetWorkspaceTemplate_archived)
  then show "ArchiveWorkspaceTemplate env w namespace uid = (w, Inl (Plain ''not found''))"
    by (simp add: ArchiveWorkspaceTemplate_def)
next
  assume a: "ArchiveWorkspaceTemplate env w namespace uid = (w', Inr archived)"
  from Archive_Inr [OF a] obtain wsTemp wsList w1 w2 y z where
    b: archived
    and g: "GetWorkspaceTemplate env w namespace uid 0 = Inr (Some wsTemp)"
    and ws: "archiveWorkspaces env w namespace wsList = (w1, None)"
    and db: "archiveWorkspaceTemplateDB env w1 namespace (UID wsTemp) = (w2, Inr y)"
    and wf: "callArchiveWorkflowTemplate env w2 namespace (UID wsTemp) = (Inr z, w')"
    by blast
  from b show archived .
  from Get_Some [OF g] obtain wt wtv wft wftv where
    r: "(wt, wtv, wft, wftv) \<in> set (getWorkspaceTemplateRows w namespace uid 0)"
    and u: "UID wsTemp = wt_uid wt" by blast
  from rows_props [OF r] have wt: "wt \<in> set (workspace_templates w)" "wt_uid wt = uid"
    "wt_namespace wt = namespace" "\<not> wt_is_archived wt" by simp_all
  then show "\<exists>wt \<in> set (workspace_templates w).
              wt_uid wt = uid \<and> wt_namespace wt = namespace \<and> \<not> wt_is_archived wt"
    by blast
  from u wt have uid: "UID wsTemp = uid" by simp
  from archiveWorkspaces_sameStore [OF ws] have 1: "workspace_templates w1 = workspace_templates w"
    by (simp add: sameStore_def)
  from callArchive_sameStore [OF wf] have 3: "workspace_templates w' = workspace_templates w2"
    by (simp add: sameStore_def)
  from archiveDB_archived [OF db] 1 3 uid have ts:
    "workspace_templates w' =
       map (\<lambda>r. if archiveRow namespace uid r then r\<lparr>wt_is_archived := True\<rparr> else r)
         (workspace_templates w)"
    by simp
  show "\<forall>wt \<in> set (workspace_templates w').
              wt_uid wt = uid \<and> wt_namespace wt = namespace \<longrightarrow> wt_is_archived wt"
  proof (intro ballI impI)
    fix r
    assume "r \<in> set (workspace_templates w')"
      and c: "wt_uid r = uid \<and> wt_namespace r = namespace"
    then have "r \<in> set (map (\<lambda>r. if archiveRow namespace uid r
                                  then r\<lparr>wt_is_archived := True\<rparr> else r)
                          (workspace_templates w))"
      by (simp only: ts)
    from archived_after_update [OF this] c show "wt_is_archived r" by blast
  qed
qed

text \<open>
  C2, amended, on the example history.
\<close>

theorem archive_transition_witness:
  "queryErr exampleEnv = None
   \<and> ArchiveWorkspaceTemplate exampleEnv retiredWorld ''team-a'' ''ml-1''
       = (retiredWorld, Inl (Plain ''not found''))
   \<and> ArchiveWorkspaceTemplate exampleEnv updatedWorld ''team-a'' ''ml-1'' = (retiredWorld, Inr True)
   \<and> map wt_is_archived (workspace_templates updatedWorld) = [False]
   \<and> map wt_is_archived (workspace_templates retiredWorld) = [True]"
proof -
  have q: "queryErr exampleEnv = None" by (simp add: example_defs)
  have all: "\<forall>wt \<in> set (workspace_templates retiredWorld).
         wt_uid wt = ''ml-1'' \<and> wt_namespace wt = ''team-a'' \<longrightarrow> wt_is_archived wt"
    by (simp add: retiredWorld_eq)
  from archive_transition [of exampleEnv retiredWorld "''ml-1''" "''team-a''", THEN conjunct1,
      THEN mp, THEN mp, OF q all]
  have 1: "ArchiveWorkspaceTemplate exampleEnv retiredWorld ''team-a'' ''ml-1''
       = (retiredWorld, Inl (Plain ''not found''))" .
  have 2: "ArchiveWorkspaceTemplate exampleEnv updatedWorld ''team-a'' ''ml-1'' = (retiredWorld, Inr True)"
    by (simp add: archive_updatedWorld retiredWorld_eq)
  note archive_transition [of exampleEnv updatedWorld "''ml-1''" "''team-a''" retiredWorld True,
      THEN conjunct2, THEN mp, OF 2]
  have 3: "map wt_is_archived (workspace_templates updatedWorld) = [False]"
    by (simp add: updatedWorld_eq)
  have 4: "map wt_is_archived (workspace_templates retiredWorld) = [True]"
    by (simp add: retiredWorld_eq)
  from q 1 2 3 4 show ?thesis by (intro conjI)
qed

section \<open>Creating a template under a name in use\<close>

lemma getWorkspaceTemplateByName_active:
  assumes "getWorkspaceTemplateByName env w namespace name = Inr (Some existing)"
  shows "\<not> IsArchived existing"
proof -
  from assms obtain r rest where
    f: "filter (\<lambda>r. wt_namespace r = namespace \<and> wt_name r = name \<and> \<not> wt_is_archived r)
          (workspace_templates w) = r # rest"
    and e: "existing = scanTemplate r"
    by (auto simp: getWorkspaceTemplateByName_def split: option.splits list.splits)
  from f have "r \<in> set (filter (\<lambda>r. wt_namespace r = namespace \<and> wt_name r = name \<and> \<not> wt_is_archived r)
          (workspace_templates w))" by simp
  then have "\<not> wt_is_archived r" by simp
  with e show ?thesis by (simp add: scanTemplate_def)
qed

text \<open>
  C3 on the example history. While \<open>ml-1\<close> is active, creating a template of that
  name fails with \<open>AlreadyExists\<close> and the message for an existing template. Once
  \<open>ml-1\<close> is archived, \<open>getWorkspaceTemplateByName\<close>, which selects rows that are
  not archived only, finds nothing, and the create goes through: the message for an
  archived template is never produced.
\<close>

theorem create_over_archived_name:
  "snd (CreateWorkspaceTemplate exampleEnv updatedWorld ''team-a'' exampleTemplate) =
     Inl (UserError AlreadyExists
            (''Workspace template with the name '' @ [CHR 0x27] @ ''ml-1'' @ [CHR 0x27]
             @ '' already exists''))
   \<and> map (\<lambda>r. (wt_name r, wt_namespace r, wt_is_archived r)) (workspace_templates retiredWorld)
       = [(''ml-1'', ''team-a'', True)]
   \<and> getWorkspaceTemplateByName exampleEnv retiredWorld ''team-a'' ''ml-1'' = Inr None
   \<and> map_sum id (\<lambda>t. (wtName t, UID t, Version t))
        (snd (CreateWorkspaceTemplate exampleEnv retiredWorld ''team-a'' exampleTemplate))
       = Inr (''ml-1'', ''ml-1'', 1)"
  unfolding retiredWorld_eq updatedWorld_eq by (simp add: eval_defs)

section \<open>Reading a template on the example history\<close>

text \<open>
  C10 on the example history: the archived template is absent, without an error, under
  version 1 and under version 0; before the archive, version 1 is returned, not archived.
\<close>

theorem GetWorkspaceTemplate_absent_or_active_witness:
  "queryErr exampleEnv = None
   \<and> getWorkspaceTemplateRows retiredWorld ''team-a'' ''ml-1'' 1 = []
   \<and> GetWorkspaceTemplate exampleEnv retiredWorld ''team-a'' ''ml-1'' 1 = Inr None
   \<and> GetWorkspaceTemplate exampleEnv retiredWorld ''team-a'' ''ml-1'' 0 = Inr None
   \<and> map_sum id (map_option (\<lambda>t. (ID t, Version t, IsArchived t)))
        (GetWorkspaceTemplate exampleEnv updatedWorld ''team-a'' ''ml-1'' 1) = Inr (Some (1, 1, False))"
proof -
  have q: "queryErr exampleEnv = None" by (simp add: example_defs)
  have rows: "getWorkspaceTemplateRows retiredWorld ''team-a'' ''ml-1'' 1 = []"
    unfolding retiredWorld_eq updatedWorld_eq by (simp add: eval_defs)
  have archived: "\<forall>wt \<in> set (workspace_templates retiredWorld).
      wt_uid wt = ''ml-1'' \<and> wt_namespace wt = ''team-a'' \<longrightarrow> wt_is_archived wt"
    by (simp add: retiredWorld_eq)
  from GetWorkspaceTemplate_absent_or_active [of exampleEnv retiredWorld "''team-a''" "''ml-1''" 1, THEN conjunct1, THEN mp, THEN mp,
      OF q rows]
  have 1: "GetWorkspaceTemplate exampleEnv retiredWorld ''team-a'' ''ml-1'' 1 = Inr None" .
  from GetWorkspaceTemplate_absent_or_active [of exampleEnv retiredWorld "''team-a''" "''ml-1''" 0, THEN conjunct2, THEN conjunct2,
      THEN mp, THEN mp, OF q archived]
  have 2: "GetWorkspaceTemplate exampleEnv retiredWorld ''team-a'' ''ml-1'' 0 = Inr None" .
  let ?g = "GetWorkspaceTemplate exampleEnv updatedWorld ''team-a'' ''ml-1'' 1"
  have g: "?g = Inr (Some (the (projr ?g)))"
    unfolding updatedWorld_eq by (simp add: eval_defs)
  from GetWorkspaceTemplate_absent_or_active [of exampleEnv updatedWorld "''team-a''" "''ml-1''" 1, THEN conjunct2, THEN conjunct1,
      THEN mp, OF g]
  have active: "\<not> IsArchived (the (projr ?g))" by simp
  have idv: "ID (the (projr ?g)) = 1 \<and> Version (the (projr ?g)) = 1"
    unfolding updatedWorld_eq by (simp add: eval_defs)
  have 3: "map_sum id (map_option (\<lambda>t. (ID t, Version t, IsArchived t))) ?g
      = Inr (Some (1, 1, False))"
    using active idv by (subst g) simp
  from q rows 1 2 3 show ?thesis by (intro conjI)
qed

end
